theory Spec2Isabelle
  imports Main "HOL-Library.Word"
begin

section \<open>The CapSense scan scheduler of \<^verbatim>\<open>source/capsense.c\<close>\<close>

text \<open>
  The file embeds \<^verbatim>\<open>capsense_task\<close>, \<^verbatim>\<open>process_touch\<close>, \<^verbatim>\<open>initialize_capsense\<close> and the
  two notification callbacks. Static variables of the task are the fields of a record that is
  passed from one iteration of the \<^verbatim>\<open>for (;;)\<close> loop to the next. Every call into a
  collaborator (CapSense middleware, FreeRTOS, HAL power management, \<^verbatim>\<open>printf\<close>) is
  written to a call log in program order; what a collaborator answers is read from an
  environment record, one per loop iteration.
\<close>

subsection \<open>Types and macros\<close>

type_synonym uint32_t = "32 word"
type_synonym uint16_t = "16 word"
type_synonym uint8_t = "8 word"

abbreviation CAPSENSE_FAST_SCAN_INTERVAL_MS :: uint32_t where
  "CAPSENSE_FAST_SCAN_INTERVAL_MS \<equiv> 20"

abbreviation CAPSENSE_SLOW_SCAN_INTERVAL_MS :: uint32_t where
  "CAPSENSE_SLOW_SCAN_INTERVAL_MS \<equiv> 200"

abbreviation MAX_CAPSENSE_FAST_SCAN_COUNT :: uint32_t where
  "MAX_CAPSENSE_FAST_SCAN_COUNT \<equiv> 100"

abbreviation RESET_CAPSENSE_FAST_SCAN_COUNT :: uint32_t where
  "RESET_CAPSENSE_FAST_SCAN_COUNT \<equiv> 1"

abbreviation INITIATE_SCAN :: uint32_t where
  "INITIATE_SCAN \<equiv> 1"

abbreviation WAIT_IN_SLEEP :: uint32_t where
  "WAIT_IN_SLEEP \<equiv> 2"

abbreviation PROCESS_TOUCH :: uint32_t where
  "PROCESS_TOUCH \<equiv> 3"

abbreviation WAIT_IN_DEEP_SLEEP :: uint32_t where
  "WAIT_IN_DEEP_SLEEP \<equiv> 4"

abbreviation UNUSED_STATE :: uint32_t where
  "UNUSED_STATE \<equiv> 5"

text \<open>
  Build-time configuration. \<^verbatim>\<open>CAPSENSE_TUNER_ENABLE\<close> selects between the two sides of
  every \<^verbatim>\<open>#if\<close> of the file. The two widget identifiers come from the generated header
  \<^verbatim>\<open>cycfg_capsense.h\<close>, which is not part of the sources: they are parameters.
\<close>

record config =
  CAPSENSE_TUNER_ENABLE :: bool
  CY_CAPSENSE_LINEARSLIDER0_WDGT_ID :: uint32_t
  CY_CAPSENSE_GANGEDSENSOR_WDGT_ID :: uint32_t

text \<open>The collaborator calls the task makes, with their arguments (and, for queries, the
  answer that came back). \<^verbatim>\<open>xTimerCreate\<close> carries the number of milliseconds the source hands
  to \<^verbatim>\<open>pdMS_TO_TICKS\<close>; \<^verbatim>\<open>initialize_capsense_tuner_call\<close> stands for the whole of
  \<^verbatim>\<open>initialize_capsense_tuner\<close>.\<close>

datatype call =
    xTimerCreate uint32_t
  | initialize_capsense_tuner_call
  | Cy_CapSense_Init
  | Cy_SysInt_Init
  | NVIC_ClearPendingIRQ
  | NVIC_EnableIRQ
  | Cy_CapSense_Enable
  | Cy_SysPm_RegisterCallback
  | Cy_CapSense_RegisterCallback
  | xTimerStart
  | Cy_CapSense_IsBusy bool
  | Cy_CapSense_Scan
  | Cy_CapSense_ScanAllWidgets
  | cyhal_syspm_lock_deepsleep
  | cyhal_syspm_unlock_deepsleep
  | xTaskNotifyWait uint32_t
  | Cy_CapSense_ProcessWidget uint32_t
  | Cy_CapSense_ProcessAllWidgets
  | Cy_CapSense_GetTouchInfo uint32_t
  | Cy_CapSense_IsWidgetActive uint32_t
  | Cy_CapSense_SetupWidget uint32_t
  | xTimerChangePeriod uint32_t
  | printf_slider_position uint32_t
  | printf_fast_scan_timeout
  | printf_touch_detected
  | Cy_CapSense_RunTuner

subsection \<open>The notification callbacks\<close>

text \<open>
  The two event sources. Each posts one fixed value with \<^verbatim>\<open>eSetValueWithOverwrite\<close>:
  \<^verbatim>\<open>scan_timer_callback\<close> posts \<^verbatim>\<open>INITIATE_SCAN\<close>, \<^verbatim>\<open>capsense_callback\<close> posts
  \<^verbatim>\<open>PROCESS_TOUCH\<close>.
\<close>

datatype event = TimerExpired | ScanComplete

definition scan_timer_callback :: uint32_t where
  "scan_timer_callback = INITIATE_SCAN"

definition capsense_callback :: uint32_t where
  "capsense_callback = PROCESS_TOUCH"

fun notify_state_change :: "event \<Rightarrow> uint32_t" where
  "notify_state_change TimerExpired = scan_timer_callback"
| "notify_state_change ScanComplete = capsense_callback"

subsection \<open>Environment and task state\<close>

text \<open>
  What the collaborators answer during one iteration of the loop:
  \<^item> \<open>is_busy\<close>: \<^verbatim>\<open>Cy_CapSense_IsBusy\<close> returned something other than \<^verbatim>\<open>CY_CAPSENSE_NOT_BUSY\<close>;
  \<^item> \<open>notified\<close>: the event whose value \<^verbatim>\<open>xTaskNotifyWait\<close> hands over when it unblocks;
  \<^item> \<open>numPosition\<close>, \<open>ptrPosition_x\<close>: the fields of the slider's touch information;
  \<^item> \<open>widget_active\<close>: \<^verbatim>\<open>Cy_CapSense_IsWidgetActive\<close> returned non-zero.
\<close>

record env =
  is_busy :: bool
  notified :: event
  numPosition :: uint8_t
  ptrPosition_x :: uint16_t
  widget_active :: bool

text \<open>The variables that live across iterations: the statics of \<^verbatim>\<open>capsense_task\<close>, its
  local \<^verbatim>\<open>slider_position\<close>, and the static \<^verbatim>\<open>slider_pos_prev\<close> of \<^verbatim>\<open>process_touch\<close>.\<close>

record task =
  state :: uint32_t
  is_fast_scan_enabled :: bool
  capsense_fast_scan_count :: uint32_t
  slider_position :: uint32_t
  slider_pos_prev :: uint16_t

subsection \<open>\<^verbatim>\<open>process_touch\<close>\<close>

definition process_touch :: "config \<Rightarrow> env \<Rightarrow> uint32_t \<Rightarrow> task \<Rightarrow> bool \<times> task \<times> call list" where
  "process_touch cfg e widget_id t =
     (let processed =
            (if \<not> CAPSENSE_TUNER_ENABLE cfg then [Cy_CapSense_ProcessWidget widget_id]
             else [Cy_CapSense_ProcessAllWidgets])
      in
        if widget_id = CY_CAPSENSE_LINEARSLIDER0_WDGT_ID cfg then
          (let slider_touch_status = numPosition e;
               slider_pos = ptrPosition_x e;
               is_new_touch_detected = (0 \<noteq> slider_touch_status \<and> slider_pos \<noteq> slider_pos_prev t)
           in (is_new_touch_detected,
               t\<lparr>slider_position :=
                    (if is_new_touch_detected then ucast slider_pos else slider_position t),
                  slider_pos_prev := slider_pos\<rparr>,
               processed @ [Cy_CapSense_GetTouchInfo (CY_CAPSENSE_LINEARSLIDER0_WDGT_ID cfg)]))
        else if widget_id = CY_CAPSENSE_GANGEDSENSOR_WDGT_ID cfg then
          (widget_active e, t,
           processed @ [Cy_CapSense_IsWidgetActive (CY_CAPSENSE_GANGEDSENSOR_WDGT_ID cfg)])
        else (False, t, processed))"

subsection \<open>One iteration of the loop of \<^verbatim>\<open>capsense_task\<close>\<close>

text \<open>The body of \<^verbatim>\<open>case PROCESS_TOUCH\<close>.\<close>

definition process_touch_case :: "config \<Rightarrow> env \<Rightarrow> task \<Rightarrow> task \<times> call list" where
  "process_touch_case cfg e t =
     (let (t1, cs1) =
            (if is_fast_scan_enabled t then
               (case process_touch cfg e (CY_CAPSENSE_LINEARSLIDER0_WDGT_ID cfg) t of
                  (detected, t', cs) \<Rightarrow>
                    if detected then
                      (t'\<lparr>capsense_fast_scan_count := RESET_CAPSENSE_FAST_SCAN_COUNT\<rparr>,
                       cs @ [printf_slider_position (slider_position t')])
                    else if MAX_CAPSENSE_FAST_SCAN_COUNT > capsense_fast_scan_count t' then
                      (t'\<lparr>capsense_fast_scan_count := capsense_fast_scan_count t' + 1\<rparr>, cs)
                    else
                      (t'\<lparr>is_fast_scan_enabled := False\<rparr>,
                       cs @ [printf_fast_scan_timeout]
                          @ (if \<not> CAPSENSE_TUNER_ENABLE cfg
                             then [Cy_CapSense_SetupWidget (CY_CAPSENSE_GANGEDSENSOR_WDGT_ID cfg)]
                             else [])
                          @ [xTimerChangePeriod CAPSENSE_SLOW_SCAN_INTERVAL_MS]))
             else
               (case process_touch cfg e (CY_CAPSENSE_GANGEDSENSOR_WDGT_ID cfg) t of
                  (detected, t', cs) \<Rightarrow>
                    if detected then
                      (t'\<lparr>is_fast_scan_enabled := True,
                          capsense_fast_scan_count := RESET_CAPSENSE_FAST_SCAN_COUNT\<rparr>,
                       cs @ [printf_touch_detected]
                          @ (if \<not> CAPSENSE_TUNER_ENABLE cfg
                             then [Cy_CapSense_SetupWidget (CY_CAPSENSE_LINEARSLIDER0_WDGT_ID cfg)]
                             else [])
                          @ [xTimerChangePeriod CAPSENSE_FAST_SCAN_INTERVAL_MS])
                    else (t', cs)))
      in (t1\<lparr>state := WAIT_IN_DEEP_SLEEP\<rparr>,
          cs1 @ (if CAPSENSE_TUNER_ENABLE cfg then [Cy_CapSense_RunTuner] else [])))"

text \<open>The \<^verbatim>\<open>switch (state)\<close>, in the order of its cases. \<^verbatim>\<open>xTaskNotifyWait(0, 0, &state,
  portMAX_DELAY)\<close> stores the notified value in \<^verbatim>\<open>state\<close> itself.\<close>

definition capsense_task_step :: "config \<Rightarrow> env \<Rightarrow> task \<Rightarrow> task \<times> call list" where
  "capsense_task_step cfg e t =
     (if state t = INITIATE_SCAN then
        (if \<not> is_busy e then
           (t\<lparr>state := WAIT_IN_SLEEP\<rparr>,
            [Cy_CapSense_IsBusy False,
             if CAPSENSE_TUNER_ENABLE cfg then Cy_CapSense_ScanAllWidgets else Cy_CapSense_Scan])
         else (t, [Cy_CapSense_IsBusy True]))
      else if state t = WAIT_IN_SLEEP then
        (t\<lparr>state := notify_state_change (notified e)\<rparr>,
         (if \<not> CAPSENSE_TUNER_ENABLE cfg then [cyhal_syspm_lock_deepsleep] else [])
           @ [xTaskNotifyWait (notify_state_change (notified e))])
      else if state t = WAIT_IN_DEEP_SLEEP then
        (t\<lparr>state := notify_state_change (notified e)\<rparr>,
         (if \<not> CAPSENSE_TUNER_ENABLE cfg then [cyhal_syspm_unlock_deepsleep] else [])
           @ [xTaskNotifyWait (notify_state_change (notified e))])
      else if state t = PROCESS_TOUCH then process_touch_case cfg e t
      else (t, []))"

text \<open>The \<^verbatim>\<open>for (;;)\<close> loop never ends; its finite prefixes are what the theorems speak
  about. One element of the environment list drives one iteration, and the calls of all
  iterations are concatenated in order.\<close>

fun capsense_task_loop :: "config \<Rightarrow> env list \<Rightarrow> task \<Rightarrow> task \<times> call list" where
  "capsense_task_loop cfg [] t = (t, [])"
| "capsense_task_loop cfg (e # es) t =
     (case capsense_task_step cfg e t of
        (t', cs) \<Rightarrow>
          (case capsense_task_loop cfg es t' of
             (t'', cs') \<Rightarrow> (t'', cs @ cs')))"

subsection \<open>Initialisation\<close>

text \<open>
  What the start-up calls answer: whether each of the three status-returning CapSense calls
  gave \<^verbatim>\<open>CYRET_SUCCESS\<close>, whether \<^verbatim>\<open>cyhal_ezi2c_init\<close> gave \<^verbatim>\<open>CY_RSLT_SUCCESS\<close>, and
  whether \<^verbatim>\<open>xTimerStart\<close> gave \<^verbatim>\<open>pdPASS\<close>.
\<close>

record init_env =
  Cy_CapSense_Init_ok :: bool
  Cy_CapSense_Enable_ok :: bool
  Cy_CapSense_RegisterCallback_ok :: bool
  cyhal_ezi2c_init_ok :: bool
  xTimerStart_ok :: bool

text \<open>\<^verbatim>\<open>initialize_capsense\<close>: the result is whether the returned status is
  \<^verbatim>\<open>CYRET_SUCCESS\<close>.\<close>

definition initialize_capsense :: "init_env \<Rightarrow> bool \<times> call list" where
  "initialize_capsense ie =
     (if \<not> Cy_CapSense_Init_ok ie then (False, [Cy_CapSense_Init])
      else if \<not> Cy_CapSense_Enable_ok ie then
        (False, [Cy_CapSense_Init, Cy_SysInt_Init, NVIC_ClearPendingIRQ,
                 NVIC_EnableIRQ, Cy_CapSense_Enable])
      else if \<not> Cy_CapSense_RegisterCallback_ok ie then
        (False, [Cy_CapSense_Init, Cy_SysInt_Init, NVIC_ClearPendingIRQ,
                 NVIC_EnableIRQ, Cy_CapSense_Enable,
                 Cy_SysPm_RegisterCallback, Cy_CapSense_RegisterCallback])
      else
        (True, [Cy_CapSense_Init, Cy_SysInt_Init, NVIC_ClearPendingIRQ,
                NVIC_EnableIRQ, Cy_CapSense_Enable,
                Cy_SysPm_RegisterCallback, Cy_CapSense_RegisterCallback]))"

text \<open>
  The places where the start-up code reaches \<^verbatim>\<open>CY_ASSERT(0)\<close>. The macro is not part of
  the sources; the comment at its first use says what it does there ("Halt the CPU if
  CapSense initialization failed"), and that is how it is modelled: the task stops and
  nothing after the assertion runs.
\<close>

datatype halted =
    Tuner_init_assert
  | CapSense_init_assert
  | Timer_start_assert

text \<open>The initial values of the persistent variables.\<close>

definition initial_task :: task where
  "initial_task =
     \<lparr>state = INITIATE_SCAN,
      is_fast_scan_enabled = True,
      capsense_fast_scan_count = RESET_CAPSENSE_FAST_SCAN_COUNT,
      slider_position = 0,
      slider_pos_prev = 0\<rparr>"

text \<open>The code of \<^verbatim>\<open>capsense_task\<close> before the loop. On success it hands the initial
  variables to the loop together with the calls made so far.\<close>

definition capsense_task_init :: "config \<Rightarrow> init_env \<Rightarrow> (halted \<times> call list) + (task \<times> call list)" where
  "capsense_task_init cfg ie =
     (let cs0 = [xTimerCreate CAPSENSE_FAST_SCAN_INTERVAL_MS] in
      if CAPSENSE_TUNER_ENABLE cfg \<and> \<not> cyhal_ezi2c_init_ok ie then
        Inl (Tuner_init_assert, cs0 @ [initialize_capsense_tuner_call])
      else
        (let cs1 = cs0 @ (if CAPSENSE_TUNER_ENABLE cfg
                          then [initialize_capsense_tuner_call, cyhal_syspm_lock_deepsleep]
                          else [])
         in case initialize_capsense ie of
              (ok, cs) \<Rightarrow>
                if \<not> ok then Inl (CapSense_init_assert, cs1 @ cs)
                else
                  (let cs2 = cs1 @ cs @
                         (if \<not> CAPSENSE_TUNER_ENABLE cfg
                          then [Cy_CapSense_SetupWidget (CY_CAPSENSE_LINEARSLIDER0_WDGT_ID cfg)]
                          else [])
                         @ [xTimerStart]
                   in if \<not> xTimerStart_ok ie then Inl (Timer_start_assert, cs2)
                      else Inr (initial_task, cs2))))"

text \<open>The whole task, run for as many loop iterations as the environment list is long.\<close>

definition capsense_task :: "config \<Rightarrow> init_env \<Rightarrow> env list \<Rightarrow> (halted \<times> call list) + (task \<times> call list)" where
  "capsense_task cfg ie es =
     (case capsense_task_init cfg ie of
        Inl h \<Rightarrow> Inl h
      | Inr (t, cs) \<Rightarrow>
          (case capsense_task_loop cfg es t of
             (t', cs') \<Rightarrow> Inr (t', cs @ cs')))"


section \<open>Notions the properties are stated with\<close>

text \<open>
  One complete scan cycle as the state comments of the source describe it, seen from
  \<^verbatim>\<open>INITIATE_SCAN\<close>: the hardware is idle, the scan's completion is notified, the result is
  processed with the answers of \<open>e\<close>, and the timer's notification ends the deep-sleep
  wait.
\<close>

definition scan_cycle :: "env \<Rightarrow> env list" where
  "scan_cycle e =
     [e\<lparr>is_busy := False\<rparr>, e\<lparr>notified := ScanComplete\<rparr>, e, e\<lparr>notified := TimerExpired\<rparr>]"

text \<open>A run of scan cycles in each of which \<^verbatim>\<open>process_touch\<close> on the slider returns
  \<^verbatim>\<open>false\<close>.\<close>

fun consecutive_misses :: "config \<Rightarrow> env list \<Rightarrow> task \<Rightarrow> bool" where
  "consecutive_misses cfg [] t = True"
| "consecutive_misses cfg (e # es) t =
     (\<not> fst (process_touch cfg e (CY_CAPSENSE_LINEARSLIDER0_WDGT_ID cfg) t)
      \<and> consecutive_misses cfg es (fst (capsense_task_loop cfg (scan_cycle e) t)))"

text \<open>The calls that arm a widget for the next scan or reprogram the scan timer.\<close>

fun is_rearm_or_retime :: "call \<Rightarrow> bool" where
  "is_rearm_or_retime (Cy_CapSense_SetupWidget w) = True"
| "is_rearm_or_retime (xTimerChangePeriod p) = True"
| "is_rearm_or_retime c = False"

text \<open>The deep-sleep lock and unlock calls of a log, and the number of locks not yet
  released at its end.\<close>

definition lock_calls :: "call list \<Rightarrow> call list" where
  "lock_calls cs =
     filter (\<lambda>c. c = cyhal_syspm_lock_deepsleep \<or> c = cyhal_syspm_unlock_deepsleep) cs"

fun outstanding_locks :: "call list \<Rightarrow> int" where
  "outstanding_locks [] = 0"
| "outstanding_locks (c # cs) =
     (if c = cyhal_syspm_lock_deepsleep then 1
      else if c = cyhal_syspm_unlock_deepsleep then - 1 else 0) + outstanding_locks cs"

text \<open>Lock, unlock, lock, unlock, ... beginning with a lock.\<close>

fun alternating :: "call list \<Rightarrow> bool" where
  "alternating [] = True"
| "alternating [c] = (c = cyhal_syspm_lock_deepsleep)"
| "alternating (c # d # cs) =
     (c = cyhal_syspm_lock_deepsleep \<and> d = cyhal_syspm_unlock_deepsleep \<and> alternating cs)"

text \<open>
  The environment delivers, at every wait, the event the state comments of the source
  name for it: the end of the scan while the task waits in \<^verbatim>\<open>WAIT_IN_SLEEP\<close>, the timer
  while it waits in \<^verbatim>\<open>WAIT_IN_DEEP_SLEEP\<close>.
\<close>

fun designated_events :: "config \<Rightarrow> env list \<Rightarrow> task \<Rightarrow> bool" where
  "designated_events cfg [] t = True"
| "designated_events cfg (e # es) t =
     ((if state t = WAIT_IN_SLEEP then notified e = ScanComplete
       else if state t = WAIT_IN_DEEP_SLEEP then notified e = TimerExpired
       else True)
      \<and> designated_events cfg es (fst (capsense_task_step cfg e t)))"

subsection \<open>Concrete inputs\<close>

definition restricted_build :: config where
  "restricted_build =
     \<lparr>CAPSENSE_TUNER_ENABLE = False,
      CY_CAPSENSE_LINEARSLIDER0_WDGT_ID = 0,
      CY_CAPSENSE_GANGEDSENSOR_WDGT_ID = 1\<rparr>"

definition tuner_build :: config where
  "tuner_build =
     \<lparr>CAPSENSE_TUNER_ENABLE = True,
      CY_CAPSENSE_LINEARSLIDER0_WDGT_ID = 0,
      CY_CAPSENSE_GANGEDSENSOR_WDGT_ID = 1\<rparr>"

definition quiet :: env where
  "quiet =
     \<lparr>is_busy = False, notified = ScanComplete, numPosition = 0, ptrPosition_x = 0,
      widget_active = False\<rparr>"

definition all_ok :: init_env where
  "all_ok =
     \<lparr>Cy_CapSense_Init_ok = True, Cy_CapSense_Enable_ok = True,
      Cy_CapSense_RegisterCallback_ok = True, cyhal_ezi2c_init_ok = True,
      xTimerStart_ok = True\<rparr>"

section \<open>Basic facts about the embedding\<close>

lemma process_touch_slider:
  "process_touch cfg e (CY_CAPSENSE_LINEARSLIDER0_WDGT_ID cfg) t =
     (numPosition e \<noteq> 0 \<and> ptrPosition_x e \<noteq> slider_pos_prev t,
      t\<lparr>slider_position :=
           (if numPosition e \<noteq> 0 \<and> ptrPosition_x e \<noteq> slider_pos_prev t
            then ucast (ptrPosition_x e) else slider_position t),
         slider_pos_prev := ptrPosition_x e\<rparr>,
      (if \<not> CAPSENSE_TUNER_ENABLE cfg
       then [Cy_CapSense_ProcessWidget (CY_CAPSENSE_LINEARSLIDER0_WDGT_ID cfg)]
       else [Cy_CapSense_ProcessAllWidgets])
        @ [Cy_CapSense_GetTouchInfo (CY_CAPSENSE_LINEARSLIDER0_WDGT_ID cfg)])"
  by (simp add: process_touch_def Let_def)

lemma loop_append:
  "capsense_task_loop cfg (es @ es') t =
     (case capsense_task_loop cfg es t of
        (t', cs) \<Rightarrow> (case capsense_task_loop cfg es' t' of (t'', cs') \<Rightarrow> (t'', cs @ cs')))"
  by (induction es arbitrary: t) (auto split: prod.splits)


lemma process_touch_state:
  "process_touch cfg e w (t\<lparr>state := s\<rparr>) =
     (case process_touch cfg e w t of (d, t', cs) \<Rightarrow> (d, t'\<lparr>state := s\<rparr>, cs))"
  by (simp add: process_touch_def Let_def)

lemma process_touch_case_state:
  "process_touch_case cfg e (t\<lparr>state := s\<rparr>) = process_touch_case cfg e t"
  unfolding process_touch_case_def process_touch_state
  by (cases "process_touch cfg e (CY_CAPSENSE_LINEARSLIDER0_WDGT_ID cfg) t";
      cases "process_touch cfg e (CY_CAPSENSE_GANGEDSENSOR_WDGT_ID cfg) t")
     (simp add: Let_def)


lemma step_INITIATE_SCAN:
  "state t = INITIATE_SCAN \<Longrightarrow>
   capsense_task_step cfg e t =
     (if \<not> is_busy e then
        (t\<lparr>state := WAIT_IN_SLEEP\<rparr>,
         [Cy_CapSense_IsBusy False,
          if CAPSENSE_TUNER_ENABLE cfg then Cy_CapSense_ScanAllWidgets else Cy_CapSense_Scan])
      else (t, [Cy_CapSense_IsBusy True]))"
  by (simp add: capsense_task_step_def)

lemma step_WAIT_IN_SLEEP:
  "state t = WAIT_IN_SLEEP \<Longrightarrow>
   capsense_task_step cfg e t =
     (t\<lparr>state := notify_state_change (notified e)\<rparr>,
      (if \<not> CAPSENSE_TUNER_ENABLE cfg then [cyhal_syspm_lock_deepsleep] else [])
        @ [xTaskNotifyWait (notify_state_change (notified e))])"
  by (simp add: capsense_task_step_def)

lemma step_WAIT_IN_DEEP_SLEEP:
  "state t = WAIT_IN_DEEP_SLEEP \<Longrightarrow>
   capsense_task_step cfg e t =
     (t\<lparr>state := notify_state_change (notified e)\<rparr>,
      (if \<not> CAPSENSE_TUNER_ENABLE cfg then [cyhal_syspm_unlock_deepsleep] else [])
        @ [xTaskNotifyWait (notify_state_change (notified e))])"
  by (simp add: capsense_task_step_def)

lemma step_PROCESS_TOUCH:
  "state t = PROCESS_TOUCH \<Longrightarrow> capsense_task_step cfg e t = process_touch_case cfg e t"
  by (simp add: capsense_task_step_def)

lemma step_default:
  "state t \<notin> {INITIATE_SCAN, WAIT_IN_SLEEP, WAIT_IN_DEEP_SLEEP, PROCESS_TOUCH} \<Longrightarrow>
   capsense_task_step cfg e t = (t, [])"
  by (simp add: capsense_task_step_def)

lemma process_touch_case_result_state:
  "state (fst (process_touch_case cfg e t)) = WAIT_IN_DEEP_SLEEP"
  by (simp add: process_touch_case_def Let_def split: prod.splits)

lemma scan_cycle_run:
  assumes "state t = INITIATE_SCAN"
  shows "capsense_task_loop cfg (scan_cycle e) t =
     (case process_touch_case cfg e t of
        (t', cs) \<Rightarrow>
          (t'\<lparr>state := INITIATE_SCAN\<rparr>,
           [Cy_CapSense_IsBusy False,
            if CAPSENSE_TUNER_ENABLE cfg then Cy_CapSense_ScanAllWidgets else Cy_CapSense_Scan]
           @ (if \<not> CAPSENSE_TUNER_ENABLE cfg then [cyhal_syspm_lock_deepsleep] else [])
           @ [xTaskNotifyWait PROCESS_TOUCH]
           @ cs
           @ (if \<not> CAPSENSE_TUNER_ENABLE cfg then [cyhal_syspm_unlock_deepsleep] else [])
           @ [xTaskNotifyWait INITIATE_SCAN]))"
proof -
  obtain t' cs where p: "process_touch_case cfg e t = (t', cs)"
    by (cases "process_touch_case cfg e t")
  have st: "state t' = WAIT_IN_DEEP_SLEEP"
    using process_touch_case_result_state [of cfg e t] p by simp
  have s1: "capsense_task_step cfg (e\<lparr>is_busy := False\<rparr>) t =
      (t\<lparr>state := WAIT_IN_SLEEP\<rparr>,
       [Cy_CapSense_IsBusy False,
        if CAPSENSE_TUNER_ENABLE cfg then Cy_CapSense_ScanAllWidgets else Cy_CapSense_Scan])"
    using assms by (simp add: step_INITIATE_SCAN)
  have s2: "capsense_task_step cfg (e\<lparr>notified := ScanComplete\<rparr>) (t\<lparr>state := WAIT_IN_SLEEP\<rparr>) =
      (t\<lparr>state := PROCESS_TOUCH\<rparr>,
       (if \<not> CAPSENSE_TUNER_ENABLE cfg then [cyhal_syspm_lock_deepsleep] else [])
         @ [xTaskNotifyWait PROCESS_TOUCH])"
    by (simp add: step_WAIT_IN_SLEEP capsense_callback_def)
  have s3: "capsense_task_step cfg e (t\<lparr>state := PROCESS_TOUCH\<rparr>) = (t', cs)"
    by (simp add: step_PROCESS_TOUCH process_touch_case_state p)
  have s4: "capsense_task_step cfg (e\<lparr>notified := TimerExpired\<rparr>) t' =
      (t'\<lparr>state := INITIATE_SCAN\<rparr>,
       (if \<not> CAPSENSE_TUNER_ENABLE cfg then [cyhal_syspm_unlock_deepsleep] else [])
         @ [xTaskNotifyWait INITIATE_SCAN])"
    using st by (simp add: step_WAIT_IN_DEEP_SLEEP scan_timer_callback_def)
  show ?thesis
    by (simp add: scan_cycle_def s1 s2 s3 s4 p)
qed


lemma process_touch_case_fast:
  assumes "is_fast_scan_enabled t"
  shows "process_touch_case cfg e t =
     (let t' = t\<lparr>slider_position :=
                     (if numPosition e \<noteq> 0 \<and> ptrPosition_x e \<noteq> slider_pos_prev t
                      then ucast (ptrPosition_x e) else slider_position t),
                   slider_pos_prev := ptrPosition_x e\<rparr>;
          cs = (if \<not> CAPSENSE_TUNER_ENABLE cfg
                then [Cy_CapSense_ProcessWidget (CY_CAPSENSE_LINEARSLIDER0_WDGT_ID cfg)]
                else [Cy_CapSense_ProcessAllWidgets])
               @ [Cy_CapSense_GetTouchInfo (CY_CAPSENSE_LINEARSLIDER0_WDGT_ID cfg)];
          tuner = (if CAPSENSE_TUNER_ENABLE cfg then [Cy_CapSense_RunTuner] else [])
      in if numPosition e \<noteq> 0 \<and> ptrPosition_x e \<noteq> slider_pos_prev t then
           (t'\<lparr>capsense_fast_scan_count := RESET_CAPSENSE_FAST_SCAN_COUNT,
               state := WAIT_IN_DEEP_SLEEP\<rparr>,
            cs @ [printf_slider_position (ucast (ptrPosition_x e))] @ tuner)
         else if capsense_fast_scan_count t < MAX_CAPSENSE_FAST_SCAN_COUNT then
           (t'\<lparr>capsense_fast_scan_count := capsense_fast_scan_count t + 1,
               state := WAIT_IN_DEEP_SLEEP\<rparr>,
            cs @ tuner)
         else
           (t'\<lparr>is_fast_scan_enabled := False, state := WAIT_IN_DEEP_SLEEP\<rparr>,
            cs @ [printf_fast_scan_timeout]
               @ (if \<not> CAPSENSE_TUNER_ENABLE cfg
                  then [Cy_CapSense_SetupWidget (CY_CAPSENSE_GANGEDSENSOR_WDGT_ID cfg)]
                  else [])
               @ [xTimerChangePeriod CAPSENSE_SLOW_SCAN_INTERVAL_MS] @ tuner))"
  using assms
  by (simp add: process_touch_case_def process_touch_slider Let_def)

lemma process_touch_case_slow:
  assumes "\<not> is_fast_scan_enabled t"
      and "CY_CAPSENSE_GANGEDSENSOR_WDGT_ID cfg \<noteq> CY_CAPSENSE_LINEARSLIDER0_WDGT_ID cfg"
  shows "process_touch_case cfg e t =
     (let cs = (if \<not> CAPSENSE_TUNER_ENABLE cfg
                then [Cy_CapSense_ProcessWidget (CY_CAPSENSE_GANGEDSENSOR_WDGT_ID cfg)]
                else [Cy_CapSense_ProcessAllWidgets])
               @ [Cy_CapSense_IsWidgetActive (CY_CAPSENSE_GANGEDSENSOR_WDGT_ID cfg)];
          tuner = (if CAPSENSE_TUNER_ENABLE cfg then [Cy_CapSense_RunTuner] else [])
      in if widget_active e then
           (t\<lparr>is_fast_scan_enabled := True,
              capsense_fast_scan_count := RESET_CAPSENSE_FAST_SCAN_COUNT,
              state := WAIT_IN_DEEP_SLEEP\<rparr>,
            cs @ [printf_touch_detected]
               @ (if \<not> CAPSENSE_TUNER_ENABLE cfg
                  then [Cy_CapSense_SetupWidget (CY_CAPSENSE_LINEARSLIDER0_WDGT_ID cfg)]
                  else [])
               @ [xTimerChangePeriod CAPSENSE_FAST_SCAN_INTERVAL_MS] @ tuner)
         else (t\<lparr>state := WAIT_IN_DEEP_SLEEP\<rparr>, cs @ tuner))"
  using assms
  by (simp add: process_touch_case_def process_touch_def Let_def)

lemma unat_count_incr:
  assumes "c < MAX_CAPSENSE_FAST_SCAN_COUNT"
  shows "unat (c + 1) = unat c + 1"
proof -
  have "unat c < 100" using assms by (simp add: word_less_nat_alt)
  then show ?thesis by (simp add: unat_word_ariths)
qed

lemma count_not_below_max:
  assumes "\<not> c < MAX_CAPSENSE_FAST_SCAN_COUNT" and "unat c \<le> 100"
  shows "unat c = 100"
  using assms by (simp add: word_less_nat_alt)

lemma misses_run:
  assumes "state t = INITIATE_SCAN" and "is_fast_scan_enabled t"
      and "consecutive_misses cfg es t"
      and "unat (capsense_fast_scan_count t) \<le> 100"
  shows "unat (capsense_fast_scan_count t) + length es \<le> 100 \<Longrightarrow>
           state (fst (capsense_task_loop cfg (concat (map scan_cycle es)) t)) = INITIATE_SCAN
         \<and> is_fast_scan_enabled (fst (capsense_task_loop cfg (concat (map scan_cycle es)) t))
         \<and> unat (capsense_fast_scan_count (fst (capsense_task_loop cfg (concat (map scan_cycle es)) t)))
             = unat (capsense_fast_scan_count t) + length es
         \<and> filter is_rearm_or_retime (snd (capsense_task_loop cfg (concat (map scan_cycle es)) t)) = []"
    and "unat (capsense_fast_scan_count t) + length es = 101 \<Longrightarrow>
           \<not> is_fast_scan_enabled (fst (capsense_task_loop cfg (concat (map scan_cycle es)) t))
         \<and> filter is_rearm_or_retime (snd (capsense_task_loop cfg (concat (map scan_cycle es)) t))
             = (if \<not> CAPSENSE_TUNER_ENABLE cfg
                then [Cy_CapSense_SetupWidget (CY_CAPSENSE_GANGEDSENSOR_WDGT_ID cfg)] else [])
               @ [xTimerChangePeriod CAPSENSE_SLOW_SCAN_INTERVAL_MS]"
  using assms
proof (induction es arbitrary: t)
  case Nil
  { case 1 then show ?case by simp
  next
    case 2 then show ?case by simp }
next
  case (Cons e es)
  { case 1
    let ?c = "capsense_fast_scan_count t"
    let ?t1 = "fst (capsense_task_loop cfg (scan_cycle e) t)"
    let ?l1 = "snd (capsense_task_loop cfg (scan_cycle e) t)"
    have split: "capsense_task_loop cfg (concat (map scan_cycle (e # es))) t =
        (fst (capsense_task_loop cfg (concat (map scan_cycle es)) ?t1),
         ?l1 @ snd (capsense_task_loop cfg (concat (map scan_cycle es)) ?t1))"
      by (simp add: loop_append case_prod_beta)
    have miss: "\<not> (numPosition e \<noteq> 0 \<and> ptrPosition_x e \<noteq> slider_pos_prev t)"
      using 1(4) by (simp add: process_touch_slider)
    have rest: "consecutive_misses cfg es ?t1"
      using 1(4) by simp
    from 1 have below: "?c < MAX_CAPSENSE_FAST_SCAN_COUNT"
      by (simp add: word_less_nat_alt)
    have t1: "state ?t1 = INITIATE_SCAN" "is_fast_scan_enabled ?t1"
         "capsense_fast_scan_count ?t1 = ?c + 1"
         "filter is_rearm_or_retime ?l1 = []"
      using 1(2,3) miss below
      by (auto simp add: scan_cycle_run process_touch_case_fast Let_def)
    have c1: "unat (capsense_fast_scan_count ?t1) + length es \<le> 100"
      using 1(1) t1(3) unat_count_incr [OF below] by simp
    show ?case
      using Cons.IH(1) [OF c1 t1(1) t1(2) rest] c1 t1 unat_count_incr [OF below]
      by (simp only: split fst_conv snd_conv filter_append) simp
  next
    case 2
    let ?c = "capsense_fast_scan_count t"
    let ?t1 = "fst (capsense_task_loop cfg (scan_cycle e) t)"
    let ?l1 = "snd (capsense_task_loop cfg (scan_cycle e) t)"
    have split: "capsense_task_loop cfg (concat (map scan_cycle (e # es))) t =
        (fst (capsense_task_loop cfg (concat (map scan_cycle es)) ?t1),
         ?l1 @ snd (capsense_task_loop cfg (concat (map scan_cycle es)) ?t1))"
      by (simp add: loop_append case_prod_beta)
    have miss: "\<not> (numPosition e \<noteq> 0 \<and> ptrPosition_x e \<noteq> slider_pos_prev t)"
      using 2(4) by (simp add: process_touch_slider)
    have rest: "consecutive_misses cfg es ?t1"
      using 2(4) by simp
    show ?case
    proof (cases "?c < MAX_CAPSENSE_FAST_SCAN_COUNT")
      case True
      have t1: "state ?t1 = INITIATE_SCAN" "is_fast_scan_enabled ?t1"
           "capsense_fast_scan_count ?t1 = ?c + 1"
           "filter is_rearm_or_retime ?l1 = []"
        using 2(2,3) miss True
        by (auto simp add: scan_cycle_run process_touch_case_fast Let_def)
      have c1: "unat (capsense_fast_scan_count ?t1) + length es = 101"
        using 2(1) t1(3) unat_count_incr [OF True] by simp
      have c2: "unat (capsense_fast_scan_count ?t1) \<le> 100"
        using t1(3) unat_count_incr [OF True] True by (simp add: word_less_nat_alt)
      show ?thesis
        using Cons.IH(2) [OF c1 t1(1) t1(2) rest c2] t1
        by (simp only: split fst_conv snd_conv filter_append) simp
    next
      case False
      then have ge: "100 \<le> unat ?c" by (simp add: word_less_nat_alt)
      from 2(1) have "unat ?c + length es = 100" by simp
      with ge have "length es = 0" by linarith
      then have es: "es = []" by simp
      have t1: "\<not> is_fast_scan_enabled ?t1"
           "filter is_rearm_or_retime ?l1 =
              (if \<not> CAPSENSE_TUNER_ENABLE cfg
               then [Cy_CapSense_SetupWidget (CY_CAPSENSE_GANGEDSENSOR_WDGT_ID cfg)] else [])
              @ [xTimerChangePeriod CAPSENSE_SLOW_SCAN_INTERVAL_MS]"
        using 2(2,3) miss False
        by (auto simp add: scan_cycle_run process_touch_case_fast Let_def)
      show ?thesis
        using t1 by (simp only: split es) simp
    qed }
qed

subsection \<open>Scans are issued only after an idle answer\<close>


lemma guarded_append:
  assumes "\<forall>i<length xs. xs ! i \<in> S \<longrightarrow> 0 < i \<and> xs ! (i - 1) = a"
      and "\<forall>i<length ys. ys ! i \<in> S \<longrightarrow> 0 < i \<and> ys ! (i - 1) = a"
  shows "\<forall>i<length (xs @ ys). (xs @ ys) ! i \<in> S \<longrightarrow> 0 < i \<and> (xs @ ys) ! (i - 1) = a"
proof (intro allI impI)
  fix i assume i: "i < length (xs @ ys)" and m: "(xs @ ys) ! i \<in> S"
  show "0 < i \<and> (xs @ ys) ! (i - 1) = a"
  proof (cases "i < length xs")
    case True
    with m have "xs ! i \<in> S" by (simp add: nth_append)
    with assms(1) True have k: "0 < i \<and> xs ! (i - 1) = a" by blast
    from True have "i - 1 < length xs" by linarith
    with k show ?thesis by (simp add: nth_append)
  next
    case False
    let ?j = "i - length xs"
    from False i have j: "?j < length ys" by simp
    from False m have "ys ! ?j \<in> S" by (simp add: nth_append)
    with assms(2) j have k: "0 < ?j \<and> ys ! (?j - 1) = a" by blast
    then have "\<not> i - 1 < length xs" by linarith
    moreover have "i - 1 - length xs = ?j - 1" by simp
    ultimately show ?thesis using k by (simp add: nth_append)
  qed
qed

lemma guarded_no_member:
  assumes "\<forall>c\<in>set xs. c \<notin> S"
  shows "\<forall>i<length xs. xs ! i \<in> S \<longrightarrow> 0 < i \<and> xs ! (i - 1) = a"
  using assms by (auto simp add: nth_mem)

lemma process_touch_no_scan:
  "c \<in> set (snd (snd (process_touch cfg e w t))) \<Longrightarrow>
     c \<noteq> Cy_CapSense_Scan \<and> c \<noteq> Cy_CapSense_ScanAllWidgets"
  by (auto simp add: process_touch_def Let_def split: if_splits)

lemma process_touch_case_no_scan:
  "c \<in> set (snd (process_touch_case cfg e t)) \<Longrightarrow>
     c \<noteq> Cy_CapSense_Scan \<and> c \<noteq> Cy_CapSense_ScanAllWidgets"
proof -
  assume c: "c \<in> set (snd (process_touch_case cfg e t))"
  obtain d1 t1 cs1 where p1: "process_touch cfg e (CY_CAPSENSE_LINEARSLIDER0_WDGT_ID cfg) t = (d1, t1, cs1)"
    by (cases "process_touch cfg e (CY_CAPSENSE_LINEARSLIDER0_WDGT_ID cfg) t")
  obtain d2 t2 cs2 where p2: "process_touch cfg e (CY_CAPSENSE_GANGEDSENSOR_WDGT_ID cfg) t = (d2, t2, cs2)"
    by (cases "process_touch cfg e (CY_CAPSENSE_GANGEDSENSOR_WDGT_ID cfg) t")
  have n1: "\<forall>c\<in>set cs1. c \<noteq> Cy_CapSense_Scan \<and> c \<noteq> Cy_CapSense_ScanAllWidgets"
    using process_touch_no_scan [of _ cfg e "CY_CAPSENSE_LINEARSLIDER0_WDGT_ID cfg" t] p1 by simp
  have n2: "\<forall>c\<in>set cs2. c \<noteq> Cy_CapSense_Scan \<and> c \<noteq> Cy_CapSense_ScanAllWidgets"
    using process_touch_no_scan [of _ cfg e "CY_CAPSENSE_GANGEDSENSOR_WDGT_ID cfg" t] p2 by simp
  show ?thesis
    using c n1 n2
    by (auto simp add: process_touch_case_def p1 p2 Let_def split: if_splits)
qed

lemma step_no_scan_when_busy:
  assumes "is_busy e" and "c \<in> set (snd (capsense_task_step cfg e t))"
  shows "c \<noteq> Cy_CapSense_Scan \<and> c \<noteq> Cy_CapSense_ScanAllWidgets"
proof (cases "state t = PROCESS_TOUCH")
  case True
  with assms(2) show ?thesis
    using process_touch_case_no_scan [of c cfg e t] by (simp add: step_PROCESS_TOUCH)
next
  case False
  with assms show ?thesis
    by (auto simp add: capsense_task_step_def split: if_splits)
qed

lemma step_scan_guarded:
  "\<forall>i<length (snd (capsense_task_step cfg e t)).
      snd (capsense_task_step cfg e t) ! i \<in> {Cy_CapSense_Scan, Cy_CapSense_ScanAllWidgets}
      \<longrightarrow> 0 < i \<and> snd (capsense_task_step cfg e t) ! (i - 1) = Cy_CapSense_IsBusy False"
proof (cases "state t = INITIATE_SCAN \<and> \<not> is_busy e")
  case True
  then have "snd (capsense_task_step cfg e t) =
      [Cy_CapSense_IsBusy False,
       if CAPSENSE_TUNER_ENABLE cfg then Cy_CapSense_ScanAllWidgets else Cy_CapSense_Scan]"
    by (simp add: step_INITIATE_SCAN)
  then show ?thesis by (simp add: nth_Cons')
next
  case False
  have "\<forall>c\<in>set (snd (capsense_task_step cfg e t)).
          c \<notin> {Cy_CapSense_Scan, Cy_CapSense_ScanAllWidgets}"
  proof (cases "state t = PROCESS_TOUCH")
    case True
    then show ?thesis
      using process_touch_case_no_scan [of _ cfg e t] by (auto simp add: step_PROCESS_TOUCH)
  next
    case F: False
    with False show ?thesis
      by (auto simp add: capsense_task_step_def split: if_splits)
  qed
  then show ?thesis by (rule guarded_no_member)
qed

lemma loop_scan_guarded:
  "\<forall>i<length (snd (capsense_task_loop cfg es t)).
      snd (capsense_task_loop cfg es t) ! i \<in> {Cy_CapSense_Scan, Cy_CapSense_ScanAllWidgets}
      \<longrightarrow> 0 < i \<and> snd (capsense_task_loop cfg es t) ! (i - 1) = Cy_CapSense_IsBusy False"
proof (induction es arbitrary: t)
  case Nil
  show ?case by simp
next
  case (Cons e es)
  have "snd (capsense_task_loop cfg (e # es) t) =
          snd (capsense_task_step cfg e t)
          @ snd (capsense_task_loop cfg es (fst (capsense_task_step cfg e t)))"
    by (simp add: case_prod_beta)
  then show ?case
    using guarded_append [OF step_scan_guarded [of cfg e t]
                             Cons.IH [of "fst (capsense_task_step cfg e t)"]]
    by simp
qed

subsection \<open>Deep-sleep locking, the miss counter\<close>


lemma lock_calls_append: "lock_calls (xs @ ys) = lock_calls xs @ lock_calls ys"
  by (simp add: lock_calls_def)

lemma lock_calls_Nil: "lock_calls [] = []"
  by (simp add: lock_calls_def)

lemma lock_calls_Cons:
  "lock_calls (c # cs) =
     (if c = cyhal_syspm_lock_deepsleep \<or> c = cyhal_syspm_unlock_deepsleep
      then c # lock_calls cs else lock_calls cs)"
  by (simp add: lock_calls_def)

lemma process_touch_no_lock:
  "lock_calls (snd (snd (process_touch cfg e w t))) = []"
  by (simp add: process_touch_def lock_calls_def Let_def)

lemma process_touch_case_no_lock:
  "lock_calls (snd (process_touch_case cfg e t)) = []"
proof -
  obtain d1 t1 cs1 where p1: "process_touch cfg e (CY_CAPSENSE_LINEARSLIDER0_WDGT_ID cfg) t = (d1, t1, cs1)"
    by (cases "process_touch cfg e (CY_CAPSENSE_LINEARSLIDER0_WDGT_ID cfg) t")
  obtain d2 t2 cs2 where p2: "process_touch cfg e (CY_CAPSENSE_GANGEDSENSOR_WDGT_ID cfg) t = (d2, t2, cs2)"
    by (cases "process_touch cfg e (CY_CAPSENSE_GANGEDSENSOR_WDGT_ID cfg) t")
  have n1: "lock_calls cs1 = []"
    using process_touch_no_lock [of cfg e "CY_CAPSENSE_LINEARSLIDER0_WDGT_ID cfg" t] p1 by simp
  have n2: "lock_calls cs2 = []"
    using process_touch_no_lock [of cfg e "CY_CAPSENSE_GANGEDSENSOR_WDGT_ID cfg" t] p2 by simp
  show ?thesis
    using n1 n2
    by (simp add: process_touch_case_def p1 p2 Let_def lock_calls_append
          lock_calls_Nil lock_calls_Cons)
qed

lemma step_lock_calls:
  "lock_calls (snd (capsense_task_step cfg e t)) =
     (if CAPSENSE_TUNER_ENABLE cfg then []
      else if state t = WAIT_IN_SLEEP then [cyhal_syspm_lock_deepsleep]
      else if state t = WAIT_IN_DEEP_SLEEP then [cyhal_syspm_unlock_deepsleep]
      else [])"
proof (cases "state t = PROCESS_TOUCH")
  case True
  then show ?thesis by (simp add: step_PROCESS_TOUCH process_touch_case_no_lock)
next
  case False
  then show ?thesis by (simp add: capsense_task_step_def lock_calls_def)
qed

lemma loop_Cons:
  "capsense_task_loop cfg (e # es) t =
     (fst (capsense_task_loop cfg es (fst (capsense_task_step cfg e t))),
      snd (capsense_task_step cfg e t)
      @ snd (capsense_task_loop cfg es (fst (capsense_task_step cfg e t))))"
  by (simp add: case_prod_beta)

declare capsense_task_loop.simps(2) [simp del]

lemma loop_no_locks_tuner:
  assumes "CAPSENSE_TUNER_ENABLE cfg"
  shows "lock_calls (snd (capsense_task_loop cfg es t)) = []"
  using assms
  by (induction es arbitrary: t)
     (simp_all add: loop_Cons lock_calls_append step_lock_calls lock_calls_Nil)

lemma loop_locks_alternate:
  assumes "\<not> CAPSENSE_TUNER_ENABLE cfg" and "designated_events cfg es t"
  shows "if state t = PROCESS_TOUCH \<or> state t = WAIT_IN_DEEP_SLEEP
         then alternating (cyhal_syspm_lock_deepsleep # lock_calls (snd (capsense_task_loop cfg es t)))
         else alternating (lock_calls (snd (capsense_task_loop cfg es t)))"
  using assms
proof (induction es arbitrary: t)
  case Nil
  show ?case by (simp add: lock_calls_Nil)
next
  case (Cons e es)
  let ?t' = "fst (capsense_task_step cfg e t)"
  from Cons.prems have d: "designated_events cfg es ?t'" by simp
  note IH = Cons.IH [OF Cons.prems(1) d]
  have locks: "lock_calls (snd (capsense_task_loop cfg (e # es) t)) =
      lock_calls (snd (capsense_task_step cfg e t)) @ lock_calls (snd (capsense_task_loop cfg es ?t'))"
    by (simp only: loop_Cons snd_conv lock_calls_append)
  consider (init) "state t = INITIATE_SCAN" | (wait) "state t = WAIT_IN_SLEEP"
    | (deep) "state t = WAIT_IN_DEEP_SLEEP" | (proc) "state t = PROCESS_TOUCH"
    | (other) "state t \<notin> {INITIATE_SCAN, WAIT_IN_SLEEP, WAIT_IN_DEEP_SLEEP, PROCESS_TOUCH}"
    by auto
  then show ?case
  proof cases
    case init
    then have "state ?t' = INITIATE_SCAN \<or> state ?t' = WAIT_IN_SLEEP"
      by (simp add: step_INITIATE_SCAN)
    with IH init Cons.prems(1) show ?thesis
      by (auto simp add: locks step_lock_calls)
  next
    case wait
    with Cons.prems(2) have "notified e = ScanComplete" by simp
    with wait have "state ?t' = PROCESS_TOUCH"
      by (simp add: step_WAIT_IN_SLEEP capsense_callback_def)
    with IH wait Cons.prems(1) show ?thesis
      by (simp add: locks step_lock_calls)
  next
    case deep
    with Cons.prems(2) have "notified e = TimerExpired" by simp
    with deep have "state ?t' = INITIATE_SCAN"
      by (simp add: step_WAIT_IN_DEEP_SLEEP scan_timer_callback_def)
    with IH deep Cons.prems(1) show ?thesis
      by (simp add: locks step_lock_calls)
  next
    case proc
    then have "state ?t' = WAIT_IN_DEEP_SLEEP"
      by (simp add: step_PROCESS_TOUCH process_touch_case_result_state)
    with IH proc Cons.prems(1) show ?thesis
      by (simp add: locks step_lock_calls)
  next
    case other
    then have "?t' = t" by (simp add: step_default)
    with IH other Cons.prems(1) show ?thesis
      by (simp add: locks step_lock_calls)
  qed
qed

lemma alternating_prefix_outstanding:
  "alternating l \<Longrightarrow> outstanding_locks (take m l) = 0 \<or> outstanding_locks (take m l) = 1"
proof (induction l arbitrary: m rule: alternating.induct)
  case 1
  show ?case by simp
next
  case (2 c)
  then show ?case by (cases m) simp_all
next
  case (3 c d cs)
  show ?case
  proof (cases m)
    case 0
    then show ?thesis by simp
  next
    case (Suc k)
    show ?thesis
    proof (cases k)
      case 0
      with Suc 3 show ?thesis by simp
    next
      case (Suc j)
      with \<open>m = Suc k\<close> 3 show ?thesis by simp
    qed
  qed
qed

lemma outstanding_lock_calls: "outstanding_locks (lock_calls l) = outstanding_locks l"
  by (induction l) (simp_all add: lock_calls_def)

lemma lock_calls_take: "\<exists>m. lock_calls (take n l) = take m (lock_calls l)"
proof (induction l arbitrary: n)
  case Nil
  show ?case by (simp add: lock_calls_def)
next
  case (Cons c cs)
  show ?case
  proof (cases n)
    case 0
    have "lock_calls (take 0 (c # cs)) = take 0 (lock_calls (c # cs))"
      by (simp add: lock_calls_def)
    with 0 show ?thesis by blast
  next
    case (Suc k)
    from Cons.IH [of k] obtain m where m: "lock_calls (take k cs) = take m (lock_calls cs)"
      by blast
    show ?thesis
    proof (cases "c = cyhal_syspm_lock_deepsleep \<or> c = cyhal_syspm_unlock_deepsleep")
      case True
      with m Suc have "lock_calls (take n (c # cs)) = take (Suc m) (lock_calls (c # cs))"
        by (auto simp add: lock_calls_def)
      then show ?thesis by blast
    next
      case False
      with m Suc have "lock_calls (take n (c # cs)) = take m (lock_calls (c # cs))"
        by (simp add: lock_calls_def)
      then show ?thesis by blast
    qed
  qed
qed

lemma alternating_every_prefix:
  assumes "alternating (lock_calls l)"
  shows "outstanding_locks (take n l) = 0 \<or> outstanding_locks (take n l) = 1"
proof -
  from lock_calls_take [of n l] obtain m where m: "lock_calls (take n l) = take m (lock_calls l)"
    by blast
  have "outstanding_locks (take n l) = outstanding_locks (take m (lock_calls l))"
    using outstanding_lock_calls [of "take n l"] m by simp
  with alternating_prefix_outstanding [OF assms, of m] show ?thesis by simp
qed

lemma initialize_capsense_no_lock: "lock_calls (snd (initialize_capsense ie)) = []"
  by (simp add: initialize_capsense_def lock_calls_Nil lock_calls_Cons)

lemma capsense_task_init_Inr:
  assumes "capsense_task_init cfg ie = Inr (t, cs)"
  shows "t = initial_task"
    and "lock_calls cs = (if CAPSENSE_TUNER_ENABLE cfg then [cyhal_syspm_lock_deepsleep] else [])"
proof -
  obtain ok cs0 where i: "initialize_capsense ie = (ok, cs0)"
    by (cases "initialize_capsense ie")
  have n: "lock_calls cs0 = []"
    using initialize_capsense_no_lock [of ie] i by simp
  have r: "Inr (t, cs) =
      (if CAPSENSE_TUNER_ENABLE cfg \<and> \<not> cyhal_ezi2c_init_ok ie then
         Inl (Tuner_init_assert,
              [xTimerCreate CAPSENSE_FAST_SCAN_INTERVAL_MS, initialize_capsense_tuner_call])
       else if \<not> ok then
         Inl (CapSense_init_assert,
              [xTimerCreate CAPSENSE_FAST_SCAN_INTERVAL_MS]
              @ (if CAPSENSE_TUNER_ENABLE cfg
                 then [initialize_capsense_tuner_call, cyhal_syspm_lock_deepsleep] else [])
              @ cs0)
       else if \<not> xTimerStart_ok ie then
         Inl (Timer_start_assert,
              [xTimerCreate CAPSENSE_FAST_SCAN_INTERVAL_MS]
              @ (if CAPSENSE_TUNER_ENABLE cfg
                 then [initialize_capsense_tuner_call, cyhal_syspm_lock_deepsleep] else [])
              @ cs0
              @ (if \<not> CAPSENSE_TUNER_ENABLE cfg
                 then [Cy_CapSense_SetupWidget (CY_CAPSENSE_LINEARSLIDER0_WDGT_ID cfg)] else [])
              @ [xTimerStart])
       else
         Inr (initial_task,
              [xTimerCreate CAPSENSE_FAST_SCAN_INTERVAL_MS]
              @ (if CAPSENSE_TUNER_ENABLE cfg
                 then [initialize_capsense_tuner_call, cyhal_syspm_lock_deepsleep] else [])
              @ cs0
              @ (if \<not> CAPSENSE_TUNER_ENABLE cfg
                 then [Cy_CapSense_SetupWidget (CY_CAPSENSE_LINEARSLIDER0_WDGT_ID cfg)] else [])
              @ [xTimerStart]))"
    using assms [symmetric] by (simp add: capsense_task_init_def i Let_def)
  show "t = initial_task"
    using r by (simp split: if_splits)
  have "cs = [xTimerCreate CAPSENSE_FAST_SCAN_INTERVAL_MS]
              @ (if CAPSENSE_TUNER_ENABLE cfg
                 then [initialize_capsense_tuner_call, cyhal_syspm_lock_deepsleep] else [])
              @ cs0
              @ (if \<not> CAPSENSE_TUNER_ENABLE cfg
                 then [Cy_CapSense_SetupWidget (CY_CAPSENSE_LINEARSLIDER0_WDGT_ID cfg)] else [])
              @ [xTimerStart]"
    using r by (simp split: if_splits)
  then show "lock_calls cs = (if CAPSENSE_TUNER_ENABLE cfg then [cyhal_syspm_lock_deepsleep] else [])"
    using n by (simp add: lock_calls_append lock_calls_Nil lock_calls_Cons)
qed

lemma capsense_task_Inr:
  assumes "capsense_task cfg ie es = Inr (t', log)"
  shows "\<exists>cs. capsense_task_init cfg ie = Inr (initial_task, cs)
            \<and> t' = fst (capsense_task_loop cfg es initial_task)
            \<and> log = cs @ snd (capsense_task_loop cfg es initial_task)"
proof (cases "capsense_task_init cfg ie")
  case (Inl h)
  with assms show ?thesis by (simp add: capsense_task_def)
next
  case (Inr r)
  obtain t cs where r: "r = (t, cs)" by (cases r)
  with Inr capsense_task_init_Inr(1) [of cfg ie t cs] have t: "t = initial_task" by simp
  with assms Inr r show ?thesis
    by (auto simp add: capsense_task_def split: prod.splits)
qed

lemma task_locks_alternate:
  assumes "designated_events cfg es initial_task"
      and "capsense_task cfg ie es = Inr (t', log)"
  shows "alternating (lock_calls log)"
proof -
  from capsense_task_Inr [OF assms(2)] obtain cs where
    i: "capsense_task_init cfg ie = Inr (initial_task, cs)"
    and l: "log = cs @ snd (capsense_task_loop cfg es initial_task)" by blast
  show ?thesis
  proof (cases "CAPSENSE_TUNER_ENABLE cfg")
    case True
    with capsense_task_init_Inr(2) [OF i] loop_no_locks_tuner [OF True, of es initial_task]
    show ?thesis by (simp add: l lock_calls_append)
  next
    case False
    with capsense_task_init_Inr(2) [OF i] loop_locks_alternate [OF False assms(1)]
    show ?thesis by (simp add: l lock_calls_append initial_task_def)
  qed
qed

lemma process_touch_count:
  "capsense_fast_scan_count (fst (snd (process_touch cfg e w t))) = capsense_fast_scan_count t"
  by (simp add: process_touch_def Let_def)

lemma process_touch_fast_flag:
  "is_fast_scan_enabled (fst (snd (process_touch cfg e w t))) = is_fast_scan_enabled t"
  by (simp add: process_touch_def Let_def)

lemma process_touch_case_count:
  "(capsense_fast_scan_count (fst (process_touch_case cfg e t)) = RESET_CAPSENSE_FAST_SCAN_COUNT
    \<or> capsense_fast_scan_count (fst (process_touch_case cfg e t)) = capsense_fast_scan_count t
    \<or> (capsense_fast_scan_count t < MAX_CAPSENSE_FAST_SCAN_COUNT
       \<and> capsense_fast_scan_count (fst (process_touch_case cfg e t)) = capsense_fast_scan_count t + 1))
   \<and> (is_fast_scan_enabled t \<and> fst (process_touch cfg e (CY_CAPSENSE_LINEARSLIDER0_WDGT_ID cfg) t)
        \<longrightarrow> capsense_fast_scan_count (fst (process_touch_case cfg e t)) = RESET_CAPSENSE_FAST_SCAN_COUNT)
   \<and> (\<not> is_fast_scan_enabled t \<and> is_fast_scan_enabled (fst (process_touch_case cfg e t))
        \<longrightarrow> capsense_fast_scan_count (fst (process_touch_case cfg e t)) = RESET_CAPSENSE_FAST_SCAN_COUNT)"
proof -
  obtain d1 t1 cs1 where p1: "process_touch cfg e (CY_CAPSENSE_LINEARSLIDER0_WDGT_ID cfg) t = (d1, t1, cs1)"
    by (cases "process_touch cfg e (CY_CAPSENSE_LINEARSLIDER0_WDGT_ID cfg) t")
  obtain d2 t2 cs2 where p2: "process_touch cfg e (CY_CAPSENSE_GANGEDSENSOR_WDGT_ID cfg) t = (d2, t2, cs2)"
    by (cases "process_touch cfg e (CY_CAPSENSE_GANGEDSENSOR_WDGT_ID cfg) t")
  have c1: "capsense_fast_scan_count t1 = capsense_fast_scan_count t"
    using process_touch_count [of cfg e "CY_CAPSENSE_LINEARSLIDER0_WDGT_ID cfg" t] p1 by simp
  have c2: "capsense_fast_scan_count t2 = capsense_fast_scan_count t"
    using process_touch_count [of cfg e "CY_CAPSENSE_GANGEDSENSOR_WDGT_ID cfg" t] p2 by simp
  have f2: "is_fast_scan_enabled t2 = is_fast_scan_enabled t"
    using process_touch_fast_flag [of cfg e "CY_CAPSENSE_GANGEDSENSOR_WDGT_ID cfg" t] p2 by simp
  show ?thesis
    by (simp add: process_touch_case_def p1 p2 c1 c2 f2 Let_def)
qed

lemma step_count:
  "(capsense_fast_scan_count (fst (capsense_task_step cfg e t)) = RESET_CAPSENSE_FAST_SCAN_COUNT
    \<or> capsense_fast_scan_count (fst (capsense_task_step cfg e t)) = capsense_fast_scan_count t
    \<or> (capsense_fast_scan_count t < MAX_CAPSENSE_FAST_SCAN_COUNT
       \<and> capsense_fast_scan_count (fst (capsense_task_step cfg e t)) = capsense_fast_scan_count t + 1))"
proof (cases "state t = PROCESS_TOUCH")
  case True
  then show ?thesis
    using process_touch_case_count [of cfg e t] by (simp add: step_PROCESS_TOUCH)
next
  case False
  then show ?thesis by (simp add: capsense_task_step_def)
qed

lemma count_in_range_next:
  assumes "RESET_CAPSENSE_FAST_SCAN_COUNT \<le> c" and "c \<le> MAX_CAPSENSE_FAST_SCAN_COUNT"
      and "c' = RESET_CAPSENSE_FAST_SCAN_COUNT \<or> c' = c
           \<or> (c < MAX_CAPSENSE_FAST_SCAN_COUNT \<and> c' = c + 1)"
  shows "RESET_CAPSENSE_FAST_SCAN_COUNT \<le> c' \<and> c' \<le> MAX_CAPSENSE_FAST_SCAN_COUNT"
proof -
  from assms(3) consider "c' = 1" | "c' = c" | "c < 100 \<and> c' = c + 1" by blast
  then show ?thesis
  proof cases
    case 1
    then show ?thesis by simp
  next
    case 2
    with assms show ?thesis by simp
  next
    case 3
    then have "unat c' = unat c + 1" using unat_count_incr [of c] by simp
    moreover from 3 have "unat c < 100" by (simp add: word_less_nat_alt)
    ultimately show ?thesis by (simp add: word_le_nat_alt)
  qed
qed

lemma loop_count_range:
  assumes "RESET_CAPSENSE_FAST_SCAN_COUNT \<le> capsense_fast_scan_count t"
      and "capsense_fast_scan_count t \<le> MAX_CAPSENSE_FAST_SCAN_COUNT"
  shows "RESET_CAPSENSE_FAST_SCAN_COUNT \<le> capsense_fast_scan_count (fst (capsense_task_loop cfg es t))
       \<and> capsense_fast_scan_count (fst (capsense_task_loop cfg es t)) \<le> MAX_CAPSENSE_FAST_SCAN_COUNT"
  using assms
proof (induction es arbitrary: t)
  case Nil
  then show ?case by simp
next
  case (Cons e es)
  from count_in_range_next [OF Cons.prems step_count [of cfg e t]]
  have "RESET_CAPSENSE_FAST_SCAN_COUNT \<le> capsense_fast_scan_count (fst (capsense_task_step cfg e t))"
    and "capsense_fast_scan_count (fst (capsense_task_step cfg e t)) \<le> MAX_CAPSENSE_FAST_SCAN_COUNT"
    by simp_all
  from Cons.IH [OF this] show ?case by (simp add: loop_Cons)
qed


subsection \<open>Start-up failures\<close>

lemma init_timer_failure:
  assumes "\<not> xTimerStart_ok ie"
  shows "\<exists>h cs. capsense_task_init cfg ie = Inl (h, cs)"
  using assms
  by (cases "initialize_capsense ie") (simp add: capsense_task_init_def Let_def)

lemma init_timer_failure_only:
  assumes "\<not> xTimerStart_ok ie"
      and "CAPSENSE_TUNER_ENABLE cfg \<longrightarrow> cyhal_ezi2c_init_ok ie"
      and "fst (initialize_capsense ie)"
  shows "\<exists>cs. capsense_task_init cfg ie = Inl (Timer_start_assert, cs @ [xTimerStart])"
  using assms
  by (cases "initialize_capsense ie") (auto simp add: capsense_task_init_def Let_def)

lemma consecutive_misses_no_touch:
  assumes "\<forall>e\<in>set es. numPosition e = 0"
  shows "consecutive_misses cfg es t"
  using assms
  by (induction es arbitrary: t) (simp_all add: process_touch_slider)

lemmas run_simps =
  capsense_task_def capsense_task_init_def initialize_capsense_def capsense_task_loop.simps
  capsense_task_step_def process_touch_case_def process_touch_def Let_def
  capsense_callback_def scan_timer_callback_def
  all_ok_def restricted_build_def tuner_build_def quiet_def initial_task_def

section \<open>The claims\<close>

text \<open>
  C1. For every sequence of events driving the scheduler, and from every task state, no scan
  is started in an iteration whose hardware-busy query answered busy: in the call log of any
  run, each \<^verbatim>\<open>Cy_CapSense_Scan\<close> or \<^verbatim>\<open>Cy_CapSense_ScanAllWidgets\<close> comes directly after a
  \<^verbatim>\<open>Cy_CapSense_IsBusy\<close> that answered not busy; an iteration whose query answers busy
  issues no scan; and in \<^verbatim>\<open>INITIATE_SCAN\<close> with a busy answer the task variables, the state
  among them, are left as they were and the only call made is the query.
\<close>

theorem no_scan_while_busy:
  "(\<forall>i<length (snd (capsense_task_loop cfg es t)).
      snd (capsense_task_loop cfg es t) ! i \<in> {Cy_CapSense_Scan, Cy_CapSense_ScanAllWidgets}
      \<longrightarrow> 0 < i \<and> snd (capsense_task_loop cfg es t) ! (i - 1) = Cy_CapSense_IsBusy False)
   \<and> (is_busy e \<longrightarrow>
        Cy_CapSense_Scan \<notin> set (snd (capsense_task_step cfg e t))
        \<and> Cy_CapSense_ScanAllWidgets \<notin> set (snd (capsense_task_step cfg e t)))
   \<and> (is_busy e \<and> state t = INITIATE_SCAN \<longrightarrow>
        capsense_task_step cfg e t = (t, [Cy_CapSense_IsBusy True]))"
  using loop_scan_guarded [of cfg es t] step_no_scan_when_busy [of e _ cfg t]
  by (auto simp add: step_INITIATE_SCAN)

theorem no_scan_while_busy_witness:
  "snd (capsense_task_loop restricted_build [quiet\<lparr>is_busy := True\<rparr>, quiet] initial_task)
     = [Cy_CapSense_IsBusy True, Cy_CapSense_IsBusy False, Cy_CapSense_Scan]
   \<and> is_busy (quiet\<lparr>is_busy := True\<rparr>)
   \<and> state initial_task = INITIATE_SCAN
   \<and> Cy_CapSense_Scan \<notin> set (snd (capsense_task_step restricted_build (quiet\<lparr>is_busy := True\<rparr>) initial_task))
   \<and> capsense_task_step restricted_build (quiet\<lparr>is_busy := True\<rparr>) initial_task
     = (initial_task, [Cy_CapSense_IsBusy True])"
  using no_scan_while_busy
          [of restricted_build "[quiet\<lparr>is_busy := True\<rparr>, quiet]" initial_task
              "quiet\<lparr>is_busy := True\<rparr>"]
  by (simp add: run_simps)

text \<open>
  C2, as stated, fails: a \<^verbatim>\<open>TimerExpired\<close> notification that arrives while the task waits in
  \<^verbatim>\<open>WAIT_IN_SLEEP\<close> sends it back to \<^verbatim>\<open>INITIATE_SCAN\<close>; the next scan brings it to
  \<^verbatim>\<open>WAIT_IN_SLEEP\<close> again, where it locks deep sleep a second time with no unlock in
  between. In the run below (restricted build, start-up succeeds) two locks are outstanding.
\<close>

theorem double_lock_after_stray_timer:
  "capsense_task restricted_build all_ok
     [quiet, quiet\<lparr>notified := TimerExpired\<rparr>, quiet\<lparr>is_busy := True\<rparr>, quiet, quiet]
   = Inr (\<lparr>state = PROCESS_TOUCH, is_fast_scan_enabled = True, capsense_fast_scan_count = 1,
           slider_position = 0, slider_pos_prev = 0\<rparr>,
          [xTimerCreate 20, Cy_CapSense_Init, Cy_SysInt_Init, NVIC_ClearPendingIRQ,
           NVIC_EnableIRQ, Cy_CapSense_Enable,
           Cy_SysPm_RegisterCallback, Cy_CapSense_RegisterCallback, Cy_CapSense_SetupWidget 0,
           xTimerStart,
           Cy_CapSense_IsBusy False, Cy_CapSense_Scan,
           cyhal_syspm_lock_deepsleep, xTaskNotifyWait INITIATE_SCAN,
           Cy_CapSense_IsBusy True,
           Cy_CapSense_IsBusy False, Cy_CapSense_Scan,
           cyhal_syspm_lock_deepsleep, xTaskNotifyWait PROCESS_TOUCH])
   \<and> lock_calls
        [xTimerCreate 20, Cy_CapSense_Init, Cy_SysInt_Init, NVIC_ClearPendingIRQ,
         NVIC_EnableIRQ, Cy_CapSense_Enable,
         Cy_SysPm_RegisterCallback, Cy_CapSense_RegisterCallback, Cy_CapSense_SetupWidget 0,
         xTimerStart,
         Cy_CapSense_IsBusy False, Cy_CapSense_Scan,
         cyhal_syspm_lock_deepsleep, xTaskNotifyWait INITIATE_SCAN,
         Cy_CapSense_IsBusy True,
         Cy_CapSense_IsBusy False, Cy_CapSense_Scan,
         cyhal_syspm_lock_deepsleep, xTaskNotifyWait PROCESS_TOUCH]
     = [cyhal_syspm_lock_deepsleep, cyhal_syspm_lock_deepsleep]
   \<and> outstanding_locks
        [xTimerCreate 20, Cy_CapSense_Init, Cy_SysInt_Init, NVIC_ClearPendingIRQ,
         NVIC_EnableIRQ, Cy_CapSense_Enable,
         Cy_SysPm_RegisterCallback, Cy_CapSense_RegisterCallback, Cy_CapSense_SetupWidget 0,
         xTimerStart,
         Cy_CapSense_IsBusy False, Cy_CapSense_Scan,
         cyhal_syspm_lock_deepsleep, xTaskNotifyWait INITIATE_SCAN,
         Cy_CapSense_IsBusy True,
         Cy_CapSense_IsBusy False, Cy_CapSense_Scan,
         cyhal_syspm_lock_deepsleep, xTaskNotifyWait PROCESS_TOUCH]
     = 2"
  by (simp add: run_simps lock_calls_def)

text \<open>
  C2, amended. Over every execution trace in which each wake in \<^verbatim>\<open>WAIT_IN_SLEEP\<close> delivers
  the scan-complete notification and each wake in \<^verbatim>\<open>WAIT_IN_DEEP_SLEEP\<close> delivers the timer
  notification, the deep-sleep lock and unlock calls of the whole task (start-up included)
  alternate strictly, beginning with a lock, so that after every prefix of the trace the
  number of outstanding locks is 0 or 1. In the restricted build an iteration locks exactly
  when it is entered in \<^verbatim>\<open>WAIT_IN_SLEEP\<close> and unlocks exactly when it is entered in
  \<^verbatim>\<open>WAIT_IN_DEEP_SLEEP\<close>. (With the tuner enabled the only lock call is the one at start-up
  and the loop neither locks nor unlocks.)
\<close>

theorem locks_alternate_under_designated_events:
  assumes "designated_events cfg es initial_task"
      and "capsense_task cfg ie es = Inr (t', log)"
  shows "alternating (lock_calls log)
       \<and> (\<forall>n. outstanding_locks (take n log) = 0 \<or> outstanding_locks (take n log) = 1)
       \<and> (\<not> CAPSENSE_TUNER_ENABLE cfg \<longrightarrow>
            (cyhal_syspm_lock_deepsleep \<in> set (snd (capsense_task_step cfg e t))
               \<longleftrightarrow> state t = WAIT_IN_SLEEP)
          \<and> (cyhal_syspm_unlock_deepsleep \<in> set (snd (capsense_task_step cfg e t))
               \<longleftrightarrow> state t = WAIT_IN_DEEP_SLEEP))"
proof -
  let ?cs = "snd (capsense_task_step cfg e t)"
  have a: "alternating (lock_calls log)" by (rule task_locks_alternate [OF assms])
  have m: "c \<in> set ?cs \<longleftrightarrow> c \<in> set (lock_calls ?cs)"
    if "c = cyhal_syspm_lock_deepsleep \<or> c = cyhal_syspm_unlock_deepsleep" for c
    using that by (auto simp add: lock_calls_def)
  have l: "\<not> CAPSENSE_TUNER_ENABLE cfg \<longrightarrow>
      (cyhal_syspm_lock_deepsleep \<in> set ?cs \<longleftrightarrow> state t = WAIT_IN_SLEEP)"
    unfolding m [of cyhal_syspm_lock_deepsleep, simplified] step_lock_calls by simp
  have u: "\<not> CAPSENSE_TUNER_ENABLE cfg \<longrightarrow>
      (cyhal_syspm_unlock_deepsleep \<in> set ?cs \<longleftrightarrow> state t = WAIT_IN_DEEP_SLEEP)"
    unfolding m [of cyhal_syspm_unlock_deepsleep, simplified] step_lock_calls by simp
  from a alternating_every_prefix [OF a] l u show ?thesis by blast
qed

theorem locks_alternate_under_designated_events_witness:
  "designated_events restricted_build
     [quiet, quiet, quiet, quiet\<lparr>notified := TimerExpired\<rparr>, quiet, quiet] initial_task
   \<and> capsense_task restricted_build all_ok
        [quiet, quiet, quiet, quiet\<lparr>notified := TimerExpired\<rparr>, quiet, quiet]
      = Inr (\<lparr>state = PROCESS_TOUCH, is_fast_scan_enabled = True, capsense_fast_scan_count = 2,
              slider_position = 0, slider_pos_prev = 0\<rparr>,
             [xTimerCreate 20, Cy_CapSense_Init, Cy_SysInt_Init, NVIC_ClearPendingIRQ,
              NVIC_EnableIRQ, Cy_CapSense_Enable,
              Cy_SysPm_RegisterCallback, Cy_CapSense_RegisterCallback,
              Cy_CapSense_SetupWidget 0, xTimerStart,
              Cy_CapSense_IsBusy False, Cy_CapSense_Scan,
              cyhal_syspm_lock_deepsleep, xTaskNotifyWait PROCESS_TOUCH,
              Cy_CapSense_ProcessWidget 0, Cy_CapSense_GetTouchInfo 0,
              cyhal_syspm_unlock_deepsleep, xTaskNotifyWait INITIATE_SCAN,
              Cy_CapSense_IsBusy False, Cy_CapSense_Scan,
              cyhal_syspm_lock_deepsleep, xTaskNotifyWait PROCESS_TOUCH])
   \<and> alternating (lock_calls
             [xTimerCreate 20, Cy_CapSense_Init, Cy_SysInt_Init, NVIC_ClearPendingIRQ,
              NVIC_EnableIRQ, Cy_CapSense_Enable,
              Cy_SysPm_RegisterCallback, Cy_CapSense_RegisterCallback,
              Cy_CapSense_SetupWidget 0, xTimerStart,
              Cy_CapSense_IsBusy False, Cy_CapSense_Scan,
              cyhal_syspm_lock_deepsleep, xTaskNotifyWait PROCESS_TOUCH,
              Cy_CapSense_ProcessWidget 0, Cy_CapSense_GetTouchInfo 0,
              cyhal_syspm_unlock_deepsleep, xTaskNotifyWait INITIATE_SCAN,
              Cy_CapSense_IsBusy False, Cy_CapSense_Scan,
              cyhal_syspm_lock_deepsleep, xTaskNotifyWait PROCESS_TOUCH])
   \<and> cyhal_syspm_lock_deepsleep
       \<in> set (snd (capsense_task_step restricted_build quiet (initial_task\<lparr>state := WAIT_IN_SLEEP\<rparr>)))"
proof -
  let ?es = "[quiet, quiet, quiet, quiet\<lparr>notified := TimerExpired\<rparr>, quiet, quiet]"
  let ?t = "\<lparr>state = PROCESS_TOUCH, is_fast_scan_enabled = True, capsense_fast_scan_count = 2,
              slider_position = 0, slider_pos_prev = 0\<rparr>"
  let ?log = "[xTimerCreate 20, Cy_CapSense_Init, Cy_SysInt_Init, NVIC_ClearPendingIRQ,
               NVIC_EnableIRQ, Cy_CapSense_Enable,
              Cy_SysPm_RegisterCallback, Cy_CapSense_RegisterCallback,
              Cy_CapSense_SetupWidget 0, xTimerStart,
              Cy_CapSense_IsBusy False, Cy_CapSense_Scan,
              cyhal_syspm_lock_deepsleep, xTaskNotifyWait PROCESS_TOUCH,
              Cy_CapSense_ProcessWidget 0, Cy_CapSense_GetTouchInfo 0,
              cyhal_syspm_unlock_deepsleep, xTaskNotifyWait INITIATE_SCAN,
              Cy_CapSense_IsBusy False, Cy_CapSense_Scan,
              cyhal_syspm_lock_deepsleep, xTaskNotifyWait PROCESS_TOUCH]"
  have d: "designated_events restricted_build ?es initial_task"
    by (simp add: run_simps)
  have r: "capsense_task restricted_build all_ok ?es = Inr (?t, ?log)"
    by (simp add: run_simps)
  have n: "\<not> CAPSENSE_TUNER_ENABLE restricted_build"
    by (simp add: restricted_build_def)
  have s: "state (initial_task\<lparr>state := WAIT_IN_SLEEP\<rparr>) = WAIT_IN_SLEEP" by simp
  from locks_alternate_under_designated_events
         [OF d r, of quiet "initial_task\<lparr>state := WAIT_IN_SLEEP\<rparr>"] n s d r
  show ?thesis by simp
qed


text \<open>
  C3, as stated, fails: a wake in \<^verbatim>\<open>WAIT_IN_SLEEP\<close> caused by \<^verbatim>\<open>TimerExpired\<close> does change the
  state. \<^verbatim>\<open>xTaskNotifyWait\<close> is handed the address of \<^verbatim>\<open>state\<close>, so the notified value
  becomes the state: the task leaves \<^verbatim>\<open>WAIT_IN_SLEEP\<close> for \<^verbatim>\<open>INITIATE_SCAN\<close>, which is
  neither the state it was in nor the state the scan-complete notification leads to.
\<close>

theorem stray_timer_changes_state:
  "state (initial_task\<lparr>state := WAIT_IN_SLEEP\<rparr>) = WAIT_IN_SLEEP
   \<and> notified (quiet\<lparr>notified := TimerExpired\<rparr>) = TimerExpired
   \<and> state (fst (capsense_task_step restricted_build (quiet\<lparr>notified := TimerExpired\<rparr>)
                  (initial_task\<lparr>state := WAIT_IN_SLEEP\<rparr>))) = INITIATE_SCAN
   \<and> state (fst (capsense_task_step restricted_build (quiet\<lparr>notified := TimerExpired\<rparr>)
                  (initial_task\<lparr>state := WAIT_IN_SLEEP\<rparr>)))
       \<noteq> state (initial_task\<lparr>state := WAIT_IN_SLEEP\<rparr>)
   \<and> state (fst (capsense_task_step restricted_build (quiet\<lparr>notified := TimerExpired\<rparr>)
                  (initial_task\<lparr>state := WAIT_IN_SLEEP\<rparr>)))
       \<noteq> state (fst (capsense_task_step restricted_build (quiet\<lparr>notified := ScanComplete\<rparr>)
                      (initial_task\<lparr>state := WAIT_IN_SLEEP\<rparr>)))"
  by (simp add: run_simps)

text \<open>
  C3, amended. For every wake of the worker in \<^verbatim>\<open>WAIT_IN_SLEEP\<close>, the state after the wake is
  the notified value; a wake caused by \<^verbatim>\<open>TimerExpired\<close> therefore moves the state to
  \<^verbatim>\<open>INITIATE_SCAN\<close>. Nothing but the state changes: cadence mode, miss counter, reported
  position and previous position are as before the wake.
\<close>

theorem wake_in_wait_takes_notified_value:
  assumes "state t = WAIT_IN_SLEEP"
  shows "fst (capsense_task_step cfg e t) = t\<lparr>state := notify_state_change (notified e)\<rparr>
       \<and> (notified e = TimerExpired \<longrightarrow>
            fst (capsense_task_step cfg e t) = t\<lparr>state := INITIATE_SCAN\<rparr>)"
  using assms by (simp add: step_WAIT_IN_SLEEP scan_timer_callback_def)

theorem wake_in_wait_takes_notified_value_witness:
  "state (initial_task\<lparr>state := WAIT_IN_SLEEP\<rparr>) = WAIT_IN_SLEEP
   \<and> notified (quiet\<lparr>notified := TimerExpired\<rparr>) = TimerExpired
   \<and> fst (capsense_task_step restricted_build (quiet\<lparr>notified := TimerExpired\<rparr>)
            (initial_task\<lparr>state := WAIT_IN_SLEEP\<rparr>))
       = initial_task\<lparr>state := INITIATE_SCAN\<rparr>"
  using wake_in_wait_takes_notified_value
          [of "initial_task\<lparr>state := WAIT_IN_SLEEP\<rparr>" restricted_build
              "quiet\<lparr>notified := TimerExpired\<rparr>"]
  by (simp add: quiet_def scan_timer_callback_def)

text \<open>
  C4. Start with the miss counter at 1 in fast mode, at the beginning of a scan cycle, and let
  every cycle be one in which \<^verbatim>\<open>process_touch\<close> finds no new touch on the slider. As long as
  fewer than \<^verbatim>\<open>MAX_CAPSENSE_FAST_SCAN_COUNT\<close> such cycles have run, the mode is still fast
  and no widget has been set up and no timer period changed. After exactly
  \<^verbatim>\<open>MAX_CAPSENSE_FAST_SCAN_COUNT\<close> of them the mode is slow, and the only arming and timer
  calls of the whole run are the set-up of the ganged sensor (made in the restricted build;
  with the tuner enabled every scan covers all widgets) and the change of the timer period
  to \<^verbatim>\<open>CAPSENSE_SLOW_SCAN_INTERVAL_MS\<close>: they happen on that last miss and on no earlier one.
\<close>

theorem fallback_exactly_at_max:
  assumes "state t = INITIATE_SCAN" and "is_fast_scan_enabled t"
      and "capsense_fast_scan_count t = RESET_CAPSENSE_FAST_SCAN_COUNT"
      and "consecutive_misses cfg es t"
  shows "(length es < unat MAX_CAPSENSE_FAST_SCAN_COUNT \<longrightarrow>
            is_fast_scan_enabled (fst (capsense_task_loop cfg (concat (map scan_cycle es)) t))
          \<and> filter is_rearm_or_retime (snd (capsense_task_loop cfg (concat (map scan_cycle es)) t)) = [])
       \<and> (length es = unat MAX_CAPSENSE_FAST_SCAN_COUNT \<longrightarrow>
            \<not> is_fast_scan_enabled (fst (capsense_task_loop cfg (concat (map scan_cycle es)) t))
          \<and> filter is_rearm_or_retime (snd (capsense_task_loop cfg (concat (map scan_cycle es)) t))
              = (if \<not> CAPSENSE_TUNER_ENABLE cfg
                 then [Cy_CapSense_SetupWidget (CY_CAPSENSE_GANGEDSENSOR_WDGT_ID cfg)] else [])
                @ [xTimerChangePeriod CAPSENSE_SLOW_SCAN_INTERVAL_MS])"
proof -
  have c: "unat (capsense_fast_scan_count t) = 1" using assms(3) by simp
  then have b: "unat (capsense_fast_scan_count t) \<le> 100" by simp
  have below: ?thesis if "length es < 100 \<or> length es = 100"
    using that misses_run(1) [OF assms(1,2,4) b] misses_run(2) [OF assms(1,2,4) b] c
    by auto
  show ?thesis
  proof (cases "length es < 100 \<or> length es = 100")
    case True
    then show ?thesis by (rule below)
  next
    case False
    then show ?thesis by simp
  qed
qed

theorem fallback_exactly_at_max_witness:
  "state initial_task = INITIATE_SCAN
   \<and> is_fast_scan_enabled initial_task
   \<and> capsense_fast_scan_count initial_task = RESET_CAPSENSE_FAST_SCAN_COUNT
   \<and> consecutive_misses restricted_build (replicate 100 quiet) initial_task
   \<and> is_fast_scan_enabled
       (fst (capsense_task_loop restricted_build (concat (map scan_cycle (replicate 99 quiet)))
               initial_task))
   \<and> filter is_rearm_or_retime
       (snd (capsense_task_loop restricted_build (concat (map scan_cycle (replicate 99 quiet)))
               initial_task)) = []
   \<and> \<not> is_fast_scan_enabled
       (fst (capsense_task_loop restricted_build (concat (map scan_cycle (replicate 100 quiet)))
               initial_task))
   \<and> filter is_rearm_or_retime
       (snd (capsense_task_loop restricted_build (concat (map scan_cycle (replicate 100 quiet)))
               initial_task))
     = [Cy_CapSense_SetupWidget 1, xTimerChangePeriod CAPSENSE_SLOW_SCAN_INTERVAL_MS]"
proof -
  have s: "state initial_task = INITIATE_SCAN" and f: "is_fast_scan_enabled initial_task"
    and c: "capsense_fast_scan_count initial_task = RESET_CAPSENSE_FAST_SCAN_COUNT"
    by (simp_all add: initial_task_def)
  have m: "consecutive_misses restricted_build (replicate n quiet) initial_task" for n
    by (rule consecutive_misses_no_touch) (simp add: quiet_def)
  have u: "unat MAX_CAPSENSE_FAST_SCAN_COUNT = 100" by simp
  have l99: "length (replicate 99 quiet) < unat MAX_CAPSENSE_FAST_SCAN_COUNT"
    unfolding u by simp
  have l100: "length (replicate 100 quiet) = unat MAX_CAPSENSE_FAST_SCAN_COUNT"
    unfolding u by simp
  have r: "\<not> CAPSENSE_TUNER_ENABLE restricted_build"
    "CY_CAPSENSE_GANGEDSENSOR_WDGT_ID restricted_build = 1"
    by (simp_all add: restricted_build_def)
  from fallback_exactly_at_max [OF s f c m [of 99]] l99
  have a: "is_fast_scan_enabled
       (fst (capsense_task_loop restricted_build (concat (map scan_cycle (replicate 99 quiet)))
               initial_task))
     \<and> filter is_rearm_or_retime
       (snd (capsense_task_loop restricted_build (concat (map scan_cycle (replicate 99 quiet)))
               initial_task)) = []"
    by blast
  from fallback_exactly_at_max [OF s f c m [of 100]] l100
  have b: "\<not> is_fast_scan_enabled
       (fst (capsense_task_loop restricted_build (concat (map scan_cycle (replicate 100 quiet)))
               initial_task))
     \<and> filter is_rearm_or_retime
       (snd (capsense_task_loop restricted_build (concat (map scan_cycle (replicate 100 quiet)))
               initial_task))
       = (if \<not> CAPSENSE_TUNER_ENABLE restricted_build
          then [Cy_CapSense_SetupWidget (CY_CAPSENSE_GANGEDSENSOR_WDGT_ID restricted_build)]
          else [])
         @ [xTimerChangePeriod CAPSENSE_SLOW_SCAN_INTERVAL_MS]"
    by blast
  from b r have b': "\<not> is_fast_scan_enabled
       (fst (capsense_task_loop restricted_build (concat (map scan_cycle (replicate 100 quiet)))
               initial_task))
     \<and> filter is_rearm_or_retime
       (snd (capsense_task_loop restricted_build (concat (map scan_cycle (replicate 100 quiet)))
               initial_task))
       = [Cy_CapSense_SetupWidget 1, xTimerChangePeriod CAPSENSE_SLOW_SCAN_INTERVAL_MS]"
    by (simp only: r if_True not_False_eq_True append_Cons append_Nil simp_thms)
  from s f c m [of 100] a b' show ?thesis by blast
qed

text \<open>
  C5. In slow mode, a processing iteration in which the ganged sensor reports active (the two
  widget identifiers being distinct) sets fast mode, resets the miss counter to
  \<^verbatim>\<open>RESET_CAPSENSE_FAST_SCAN_COUNT\<close>, and within the same iteration sets up the linear slider
  (restricted build; with the tuner enabled every scan covers all widgets) and changes the
  timer period to \<^verbatim>\<open>CAPSENSE_FAST_SCAN_INTERVAL_MS\<close>, before the state moves on to
  \<^verbatim>\<open>WAIT_IN_DEEP_SLEEP\<close>.
\<close>

theorem escalation_same_cycle:
  assumes "state t = PROCESS_TOUCH" and "\<not> is_fast_scan_enabled t" and "widget_active e"
      and "CY_CAPSENSE_GANGEDSENSOR_WDGT_ID cfg \<noteq> CY_CAPSENSE_LINEARSLIDER0_WDGT_ID cfg"
  shows "capsense_task_step cfg e t =
           (t\<lparr>is_fast_scan_enabled := True,
              capsense_fast_scan_count := RESET_CAPSENSE_FAST_SCAN_COUNT,
              state := WAIT_IN_DEEP_SLEEP\<rparr>,
            (if \<not> CAPSENSE_TUNER_ENABLE cfg
             then [Cy_CapSense_ProcessWidget (CY_CAPSENSE_GANGEDSENSOR_WDGT_ID cfg)]
             else [Cy_CapSense_ProcessAllWidgets])
            @ [Cy_CapSense_IsWidgetActive (CY_CAPSENSE_GANGEDSENSOR_WDGT_ID cfg),
               printf_touch_detected]
            @ (if \<not> CAPSENSE_TUNER_ENABLE cfg
               then [Cy_CapSense_SetupWidget (CY_CAPSENSE_LINEARSLIDER0_WDGT_ID cfg)] else [])
            @ [xTimerChangePeriod CAPSENSE_FAST_SCAN_INTERVAL_MS]
            @ (if CAPSENSE_TUNER_ENABLE cfg then [Cy_CapSense_RunTuner] else []))"
  using assms by (simp add: step_PROCESS_TOUCH process_touch_case_slow Let_def)

theorem escalation_same_cycle_witness:
  "capsense_task_step restricted_build (quiet\<lparr>widget_active := True\<rparr>)
     \<lparr>state = PROCESS_TOUCH, is_fast_scan_enabled = False, capsense_fast_scan_count = 100,
      slider_position = 0, slider_pos_prev = 0\<rparr>
   = (\<lparr>state = WAIT_IN_DEEP_SLEEP, is_fast_scan_enabled = True, capsense_fast_scan_count = 1,
       slider_position = 0, slider_pos_prev = 0\<rparr>,
      [Cy_CapSense_ProcessWidget 1, Cy_CapSense_IsWidgetActive 1, printf_touch_detected,
       Cy_CapSense_SetupWidget 0, xTimerChangePeriod CAPSENSE_FAST_SCAN_INTERVAL_MS])"
  using escalation_same_cycle
          [of "\<lparr>state = PROCESS_TOUCH, is_fast_scan_enabled = False, capsense_fast_scan_count = 100,
                slider_position = 0, slider_pos_prev = 0\<rparr>"
              "quiet\<lparr>widget_active := True\<rparr>" restricted_build]
  by (simp add: restricted_build_def quiet_def)

text \<open>
  C6. For every call of \<^verbatim>\<open>process_touch\<close> on the linear slider, the result is true exactly
  when the reported number of touch positions is non-zero and the reported position differs
  from \<^verbatim>\<open>slider_pos_prev\<close>; and after the call \<^verbatim>\<open>slider_pos_prev\<close> is the reported position,
  whatever the result.
\<close>

theorem process_touch_slider_new_touch_iff:
  "fst (process_touch cfg e (CY_CAPSENSE_LINEARSLIDER0_WDGT_ID cfg) t)
     = (numPosition e \<noteq> 0 \<and> ptrPosition_x e \<noteq> slider_pos_prev t)
   \<and> slider_pos_prev (fst (snd (process_touch cfg e (CY_CAPSENSE_LINEARSLIDER0_WDGT_ID cfg) t)))
     = ptrPosition_x e"
  by (simp add: process_touch_slider)

theorem process_touch_slider_new_touch_iff_witness:
  "fst (process_touch restricted_build (quiet\<lparr>numPosition := 1, ptrPosition_x := 5\<rparr>) 0 initial_task)
   \<and> \<not> fst (process_touch restricted_build (quiet\<lparr>numPosition := 1, ptrPosition_x := 5\<rparr>) 0
             (initial_task\<lparr>slider_pos_prev := 5\<rparr>))
   \<and> \<not> fst (process_touch restricted_build (quiet\<lparr>numPosition := 0, ptrPosition_x := 5\<rparr>) 0 initial_task)
   \<and> slider_pos_prev (fst (snd (process_touch restricted_build
         (quiet\<lparr>numPosition := 0, ptrPosition_x := 5\<rparr>) 0 initial_task))) = 5"
  using process_touch_slider_new_touch_iff
          [of restricted_build "quiet\<lparr>numPosition := 1, ptrPosition_x := 5\<rparr>" initial_task]
        process_touch_slider_new_touch_iff
          [of restricted_build "quiet\<lparr>numPosition := 1, ptrPosition_x := 5\<rparr>"
              "initial_task\<lparr>slider_pos_prev := 5\<rparr>"]
        process_touch_slider_new_touch_iff
          [of restricted_build "quiet\<lparr>numPosition := 0, ptrPosition_x := 5\<rparr>" initial_task]
  by (simp add: restricted_build_def quiet_def initial_task_def)


text \<open>
  C7. The miss counter \<^verbatim>\<open>capsense_fast_scan_count\<close> is between
  \<^verbatim>\<open>RESET_CAPSENSE_FAST_SCAN_COUNT\<close> and \<^verbatim>\<open>MAX_CAPSENSE_FAST_SCAN_COUNT\<close> in every state the
  task reaches, whatever the environment answers. It starts at
  \<^verbatim>\<open>RESET_CAPSENSE_FAST_SCAN_COUNT\<close>; an iteration resets it, leaves it alone, or adds one,
  and adds one only while it is strictly below the maximum; it is reset whenever a new touch
  is detected in fast mode and whenever slow mode escalates to fast mode.
\<close>

theorem miss_counter_in_range:
  assumes "capsense_task cfg ie es = Inr (t', log)"
  shows "RESET_CAPSENSE_FAST_SCAN_COUNT \<le> capsense_fast_scan_count t'
       \<and> capsense_fast_scan_count t' \<le> MAX_CAPSENSE_FAST_SCAN_COUNT
       \<and> capsense_fast_scan_count initial_task = RESET_CAPSENSE_FAST_SCAN_COUNT
       \<and> (capsense_fast_scan_count (fst (capsense_task_step cfg e t)) = RESET_CAPSENSE_FAST_SCAN_COUNT
          \<or> capsense_fast_scan_count (fst (capsense_task_step cfg e t)) = capsense_fast_scan_count t
          \<or> (capsense_fast_scan_count t < MAX_CAPSENSE_FAST_SCAN_COUNT
             \<and> capsense_fast_scan_count (fst (capsense_task_step cfg e t))
                 = capsense_fast_scan_count t + 1))
       \<and> (state t = PROCESS_TOUCH \<and> is_fast_scan_enabled t
            \<and> fst (process_touch cfg e (CY_CAPSENSE_LINEARSLIDER0_WDGT_ID cfg) t)
          \<longrightarrow> capsense_fast_scan_count (fst (capsense_task_step cfg e t))
                = RESET_CAPSENSE_FAST_SCAN_COUNT)
       \<and> (state t = PROCESS_TOUCH \<and> \<not> is_fast_scan_enabled t
            \<and> is_fast_scan_enabled (fst (capsense_task_step cfg e t))
          \<longrightarrow> capsense_fast_scan_count (fst (capsense_task_step cfg e t))
                = RESET_CAPSENSE_FAST_SCAN_COUNT)"
proof -
  from capsense_task_Inr [OF assms]
  have t': "t' = fst (capsense_task_loop cfg es initial_task)" by blast
  have i: "capsense_fast_scan_count initial_task = RESET_CAPSENSE_FAST_SCAN_COUNT"
    by (simp add: initial_task_def)
  have r: "RESET_CAPSENSE_FAST_SCAN_COUNT \<le> capsense_fast_scan_count t'
       \<and> capsense_fast_scan_count t' \<le> MAX_CAPSENSE_FAST_SCAN_COUNT"
    unfolding t' by (rule loop_count_range) (simp_all add: i)
  have p: "state t = PROCESS_TOUCH \<longrightarrow> capsense_task_step cfg e t = process_touch_case cfg e t"
    by (simp add: step_PROCESS_TOUCH)
  from r i step_count [of cfg e t] process_touch_case_count [of cfg e t] p
  show ?thesis by auto
qed

theorem miss_counter_in_range_witness:
  "capsense_task restricted_build all_ok [quiet, quiet, quiet\<lparr>numPosition := 1\<rparr>]
     = Inr (\<lparr>state = WAIT_IN_DEEP_SLEEP, is_fast_scan_enabled = True, capsense_fast_scan_count = 2,
             slider_position = 0, slider_pos_prev = 0\<rparr>,
            [xTimerCreate 20, Cy_CapSense_Init, Cy_SysInt_Init, NVIC_ClearPendingIRQ,
             NVIC_EnableIRQ, Cy_CapSense_Enable,
             Cy_SysPm_RegisterCallback, Cy_CapSense_RegisterCallback,
             Cy_CapSense_SetupWidget 0, xTimerStart,
             Cy_CapSense_IsBusy False, Cy_CapSense_Scan,
             cyhal_syspm_lock_deepsleep, xTaskNotifyWait PROCESS_TOUCH,
             Cy_CapSense_ProcessWidget 0, Cy_CapSense_GetTouchInfo 0])
   \<and> RESET_CAPSENSE_FAST_SCAN_COUNT \<le> (2 :: uint32_t)
   \<and> (2 :: uint32_t) \<le> MAX_CAPSENSE_FAST_SCAN_COUNT
   \<and> capsense_fast_scan_count
        (fst (capsense_task_step restricted_build (quiet\<lparr>numPosition := 1, ptrPosition_x := 5\<rparr>)
                \<lparr>state = PROCESS_TOUCH, is_fast_scan_enabled = True,
                 capsense_fast_scan_count = 7, slider_position = 0, slider_pos_prev = 0\<rparr>))
      = RESET_CAPSENSE_FAST_SCAN_COUNT
   \<and> capsense_fast_scan_count
        (fst (capsense_task_step restricted_build (quiet\<lparr>widget_active := True\<rparr>)
                \<lparr>state = PROCESS_TOUCH, is_fast_scan_enabled = False,
                 capsense_fast_scan_count = 100, slider_position = 0, slider_pos_prev = 0\<rparr>))
      = RESET_CAPSENSE_FAST_SCAN_COUNT"
proof -
  let ?t = "\<lparr>state = WAIT_IN_DEEP_SLEEP, is_fast_scan_enabled = True, capsense_fast_scan_count = 2,
             slider_position = 0, slider_pos_prev = 0\<rparr>"
  let ?log = "[xTimerCreate 20, Cy_CapSense_Init, Cy_SysInt_Init, NVIC_ClearPendingIRQ,
               NVIC_EnableIRQ, Cy_CapSense_Enable,
             Cy_SysPm_RegisterCallback, Cy_CapSense_RegisterCallback,
             Cy_CapSense_SetupWidget 0, xTimerStart,
             Cy_CapSense_IsBusy False, Cy_CapSense_Scan,
             cyhal_syspm_lock_deepsleep, xTaskNotifyWait PROCESS_TOUCH,
             Cy_CapSense_ProcessWidget 0, Cy_CapSense_GetTouchInfo 0]"
  let ?tf = "\<lparr>state = PROCESS_TOUCH, is_fast_scan_enabled = True,
                 capsense_fast_scan_count = 7, slider_position = 0, slider_pos_prev = 0\<rparr>"
  let ?ts = "\<lparr>state = PROCESS_TOUCH, is_fast_scan_enabled = False,
                 capsense_fast_scan_count = 100, slider_position = 0, slider_pos_prev = 0\<rparr>"
  have r: "capsense_task restricted_build all_ok [quiet, quiet, quiet\<lparr>numPosition := 1\<rparr>]
             = Inr (?t, ?log)"
    by (simp add: run_simps)
  have f: "state ?tf = PROCESS_TOUCH \<and> is_fast_scan_enabled ?tf
      \<and> fst (process_touch restricted_build (quiet\<lparr>numPosition := 1, ptrPosition_x := 5\<rparr>)
                (CY_CAPSENSE_LINEARSLIDER0_WDGT_ID restricted_build) ?tf)"
    by (simp add: run_simps)
  have s: "state ?ts = PROCESS_TOUCH \<and> \<not> is_fast_scan_enabled ?ts
      \<and> is_fast_scan_enabled
          (fst (capsense_task_step restricted_build (quiet\<lparr>widget_active := True\<rparr>) ?ts))"
    by (simp add: run_simps)
  from miss_counter_in_range [OF r, of "quiet\<lparr>numPosition := 1, ptrPosition_x := 5\<rparr>" ?tf] f
       miss_counter_in_range [OF r, of "quiet\<lparr>widget_active := True\<rparr>" ?ts] s r
  show ?thesis by simp
qed

text \<open>
  C8. In slow mode, a processing iteration in which the ganged sensor does not report active
  (the two widget identifiers being distinct) changes nothing but the state, which becomes
  \<^verbatim>\<open>WAIT_IN_DEEP_SLEEP\<close>: the mode stays slow, the miss counter and the remembered positions
  are untouched, and the only calls made are the processing of the widget and the query of
  its status (and the tuner synchronisation when the tuner is enabled), so no widget is set
  up and the timer period is not changed.
\<close>

theorem slow_no_touch_frame:
  assumes "state t = PROCESS_TOUCH" and "\<not> is_fast_scan_enabled t" and "\<not> widget_active e"
      and "CY_CAPSENSE_GANGEDSENSOR_WDGT_ID cfg \<noteq> CY_CAPSENSE_LINEARSLIDER0_WDGT_ID cfg"
  shows "capsense_task_step cfg e t =
           (t\<lparr>state := WAIT_IN_DEEP_SLEEP\<rparr>,
            (if \<not> CAPSENSE_TUNER_ENABLE cfg
             then [Cy_CapSense_ProcessWidget (CY_CAPSENSE_GANGEDSENSOR_WDGT_ID cfg)]
             else [Cy_CapSense_ProcessAllWidgets])
            @ [Cy_CapSense_IsWidgetActive (CY_CAPSENSE_GANGEDSENSOR_WDGT_ID cfg)]
            @ (if CAPSENSE_TUNER_ENABLE cfg then [Cy_CapSense_RunTuner] else []))
       \<and> filter is_rearm_or_retime (snd (capsense_task_step cfg e t)) = []"
  using assms by (simp add: step_PROCESS_TOUCH process_touch_case_slow Let_def)

theorem slow_no_touch_frame_witness:
  "capsense_task_step restricted_build quiet
     \<lparr>state = PROCESS_TOUCH, is_fast_scan_enabled = False, capsense_fast_scan_count = 100,
      slider_position = 9, slider_pos_prev = 9\<rparr>
   = (\<lparr>state = WAIT_IN_DEEP_SLEEP, is_fast_scan_enabled = False, capsense_fast_scan_count = 100,
       slider_position = 9, slider_pos_prev = 9\<rparr>,
      [Cy_CapSense_ProcessWidget 1, Cy_CapSense_IsWidgetActive 1])"
  using slow_no_touch_frame
          [of "\<lparr>state = PROCESS_TOUCH, is_fast_scan_enabled = False, capsense_fast_scan_count = 100,
                slider_position = 9, slider_pos_prev = 9\<rparr>"
              quiet restricted_build]
  by (simp add: restricted_build_def quiet_def)

text \<open>
  C9. \<^verbatim>\<open>slider_pos_prev\<close> starts at 0. As long as it still has its initial value, a call of
  \<^verbatim>\<open>process_touch\<close> on the linear slider returns true exactly when the number of touch
  positions is non-zero and the reported coordinate is not 0. So a first touch at coordinate
  0 is not detected, however many positions are reported, and a fast-mode processing
  iteration in that situation prints no slider position.
\<close>

theorem first_touch_at_zero_not_reported:
  assumes "slider_pos_prev t = slider_pos_prev initial_task"
  shows "slider_pos_prev initial_task = 0
       \<and> fst (process_touch cfg e (CY_CAPSENSE_LINEARSLIDER0_WDGT_ID cfg) t)
           = (numPosition e \<noteq> 0 \<and> ptrPosition_x e \<noteq> 0)
       \<and> (ptrPosition_x e = 0 \<longrightarrow>
            \<not> fst (process_touch cfg e (CY_CAPSENSE_LINEARSLIDER0_WDGT_ID cfg) t))
       \<and> (ptrPosition_x e = 0 \<and> is_fast_scan_enabled t \<and> state t = PROCESS_TOUCH \<longrightarrow>
            (\<forall>p. printf_slider_position p \<notin> set (snd (capsense_task_step cfg e t))))"
  using assms
  by (auto simp add: process_touch_slider initial_task_def step_PROCESS_TOUCH
        process_touch_case_fast Let_def)

theorem first_touch_at_zero_not_reported_witness:
  "slider_pos_prev initial_task = 0
   \<and> numPosition (quiet\<lparr>numPosition := 1, ptrPosition_x := 0\<rparr>) = 1
   \<and> \<not> fst (process_touch restricted_build (quiet\<lparr>numPosition := 1, ptrPosition_x := 0\<rparr>) 0
             (initial_task\<lparr>state := PROCESS_TOUCH\<rparr>))
   \<and> snd (capsense_task_step restricted_build (quiet\<lparr>numPosition := 1, ptrPosition_x := 0\<rparr>)
             (initial_task\<lparr>state := PROCESS_TOUCH\<rparr>))
      = [Cy_CapSense_ProcessWidget 0, Cy_CapSense_GetTouchInfo 0]
   \<and> fst (process_touch restricted_build (quiet\<lparr>numPosition := 1, ptrPosition_x := 5\<rparr>) 0
           (initial_task\<lparr>state := PROCESS_TOUCH\<rparr>))"
  using first_touch_at_zero_not_reported
          [of "initial_task\<lparr>state := PROCESS_TOUCH\<rparr>" restricted_build
              "quiet\<lparr>numPosition := 1, ptrPosition_x := 0\<rparr>"]
        first_touch_at_zero_not_reported
          [of "initial_task\<lparr>state := PROCESS_TOUCH\<rparr>" restricted_build
              "quiet\<lparr>numPosition := 1, ptrPosition_x := 5\<rparr>"]
  by (simp add: run_simps)

text \<open>
  C10. When \<^verbatim>\<open>xTimerStart\<close> does not return \<^verbatim>\<open>pdPASS\<close>, \<^verbatim>\<open>capsense_task\<close> ends in an
  assertion and never enters its loop: the outcome does not depend on what the environment
  would have answered to the loop. When every other start-up call succeeded, the assertion
  reached is the one after \<^verbatim>\<open>xTimerStart\<close>, and \<^verbatim>\<open>xTimerStart\<close> is the last call made: a
  fatal condition of its own, apart from the failure of \<^verbatim>\<open>initialize_capsense\<close>.
\<close>

theorem timer_start_failure_halts:
  assumes "\<not> xTimerStart_ok ie"
  shows "(\<exists>h cs. capsense_task cfg ie es = Inl (h, cs))
       \<and> capsense_task cfg ie es = capsense_task cfg ie []
       \<and> ((CAPSENSE_TUNER_ENABLE cfg \<longrightarrow> cyhal_ezi2c_init_ok ie) \<and> fst (initialize_capsense ie)
            \<longrightarrow> (\<exists>cs. capsense_task cfg ie es = Inl (Timer_start_assert, cs @ [xTimerStart])))"
proof -
  from init_timer_failure [OF assms, of cfg]
  obtain h cs where h: "capsense_task_init cfg ie = Inl (h, cs)" by blast
  then have a: "\<exists>h cs. capsense_task cfg ie es = Inl (h, cs)"
    by (simp add: capsense_task_def)
  from h have b: "capsense_task cfg ie es = capsense_task cfg ie []"
    by (simp add: capsense_task_def)
  have c: "\<exists>cs. capsense_task cfg ie es = Inl (Timer_start_assert, cs @ [xTimerStart])"
    if "CAPSENSE_TUNER_ENABLE cfg \<longrightarrow> cyhal_ezi2c_init_ok ie" "fst (initialize_capsense ie)"
    using init_timer_failure_only [OF assms that] by (auto simp add: capsense_task_def)
  from a b c show ?thesis by blast
qed

theorem timer_start_failure_halts_witness:
  "\<not> xTimerStart_ok (all_ok\<lparr>xTimerStart_ok := False\<rparr>)
   \<and> fst (initialize_capsense (all_ok\<lparr>xTimerStart_ok := False\<rparr>))
   \<and> capsense_task restricted_build (all_ok\<lparr>xTimerStart_ok := False\<rparr>) [quiet, quiet]
      = Inl (Timer_start_assert,
             [xTimerCreate 20, Cy_CapSense_Init, Cy_SysInt_Init, NVIC_ClearPendingIRQ,
              NVIC_EnableIRQ, Cy_CapSense_Enable,
              Cy_SysPm_RegisterCallback, Cy_CapSense_RegisterCallback,
              Cy_CapSense_SetupWidget 0, xTimerStart])"
proof -
  have n: "\<not> xTimerStart_ok (all_ok\<lparr>xTimerStart_ok := False\<rparr>)" by simp
  have e: "capsense_task restricted_build (all_ok\<lparr>xTimerStart_ok := False\<rparr>) []
      = Inl (Timer_start_assert,
             [xTimerCreate 20, Cy_CapSense_Init, Cy_SysInt_Init, NVIC_ClearPendingIRQ,
              NVIC_EnableIRQ, Cy_CapSense_Enable,
              Cy_SysPm_RegisterCallback, Cy_CapSense_RegisterCallback,
              Cy_CapSense_SetupWidget 0, xTimerStart])"
    by (simp add: run_simps)
  have i: "fst (initialize_capsense (all_ok\<lparr>xTimerStart_ok := False\<rparr>))"
    by (simp add: run_simps)
  from timer_start_failure_halts [OF n, of restricted_build "[quiet, quiet]"] e n i
  show ?thesis by simp
qed

end
